theory Spec2Isabelle
  imports Complex_Main "HOL-Library.Char_ord" "HOL-Library.List_Lexorder" "HOL-Library.AList"
begin

section \<open>Python values and string primitives\<close>

text \<open>
  Python strings are sequences of code points. The model covers the code points below 256
  (Latin-1), one \<^typ>\<open>char\<close> each, so \<^typ>\<open>string\<close> stands for \<open>str\<close>. Exceptions are
  values of \<open>py_error\<close>, and a function that may raise returns \<open>py_error + 'a\<close>.
  \<open>BaseException\<close> stands for an exception that is not derived from \<open>Exception\<close>, such as
  \<open>SystemExit\<close> or \<open>KeyboardInterrupt\<close>, and carries its name: no \<open>except Exception\<close>
  catches it.
\<close>

datatype py_error = IndexError | ValueError | KeyError | ZeroDivisionError | BaseException string

text \<open>\<open>str.isspace\<close>, the class that \<open>strip()\<close> and \<open>split()\<close> use: tab to carriage return,
  the four separators 28 to 31, the space, NEL (133) and the no-break space (160).\<close>

definition isspace :: "char \<Rightarrow> bool" where
  "isspace c = (let n = (of_char c :: nat)
                in (9 \<le> n \<and> n \<le> 13) \<or> (28 \<le> n \<and> n \<le> 32) \<or> n = 133 \<or> n = 160)"

text \<open>\<open>str.isdigit\<close>: the ten decimal digits, and the superscripts two, three and one
  (178, 179, 185), which are digits without being decimal.\<close>

definition isdigit :: "char \<Rightarrow> bool" where
  "isdigit c = (let n = (of_char c :: nat)
                in (48 \<le> n \<and> n \<le> 57) \<or> n = 178 \<or> n = 179 \<or> n = 185)"

text \<open>\<open>int(char)\<close> on a one-character string: only a decimal digit has a value, anything
  else raises \<open>ValueError\<close>.\<close>

definition int_of_char :: "char \<Rightarrow> py_error + nat" where
  "int_of_char c = (let n = (of_char c :: nat)
                    in if 48 \<le> n \<and> n \<le> 57 then Inr (n - 48) else Inl ValueError)"

text \<open>\<open>a / b\<close> on floats, which are modelled as reals: a zero divisor raises.\<close>

definition true_divide :: "real \<Rightarrow> real \<Rightarrow> py_error + real" where
  "true_divide a b = (if b = 0 then Inl ZeroDivisionError else Inr (a / b))"

definition strip :: "string \<Rightarrow> string" where
  "strip s = rev (dropWhile isspace (rev (dropWhile isspace s)))"

text \<open>\<open>s.split()\<close>: the maximal runs of non-space characters; \<open>w\<close> is the word being read.\<close>

fun split_ws :: "string \<Rightarrow> string \<Rightarrow> string list" where
  "split_ws w [] = (if w = [] then [] else [w])"
| "split_ws w (c # cs) =
     (if isspace c then (if w = [] then split_ws [] cs else w # split_ws [] cs)
      else split_ws (w @ [c]) cs)"

definition split_whitespace :: "string \<Rightarrow> string list" where
  "split_whitespace s = split_ws [] s"

text \<open>\<open>s.split(sep)\<close> for a one-character separator: empty fields are kept, and the result
  is never empty.\<close>

fun split_on :: "char \<Rightarrow> string \<Rightarrow> string list" where
  "split_on sep [] = [[]]"
| "split_on sep (c # cs) =
     (if c = sep then [] # split_on sep cs
      else (case split_on sep cs of [] \<Rightarrow> [[c]] | r # rs \<Rightarrow> (c # r) # rs))"

definition startswith :: "string \<Rightarrow> string \<Rightarrow> bool" where
  "startswith s p = (take (length p) s = p)"

definition endswith :: "string \<Rightarrow> string \<Rightarrow> bool" where
  "endswith s p = (length p \<le> length s \<and> drop (length s - length p) s = p)"

section \<open>Metric engine (evaluate.py)\<close>

text \<open>\<open>extract_piece_positions\<close>: \<open>fen.split()[0] if ' ' in fen else fen\<close>. The index
  raises \<open>IndexError\<close> when the string holds a space and nothing but white space.\<close>

definition extract_piece_positions :: "string \<Rightarrow> py_error + string" where
  "extract_piece_positions fen =
     (if CHR '' '' \<in> set fen
      then (case split_whitespace fen of [] \<Rightarrow> Inl IndexError | w # _ \<Rightarrow> Inr w)
      else Inr fen)"

definition compare_positions :: "string \<Rightarrow> string \<Rightarrow> py_error + bool" where
  "compare_positions predicted ground_truth =
     (case extract_piece_positions (strip predicted) of
        Inl e \<Rightarrow> Inl e
      | Inr pred_pos \<Rightarrow>
          (case extract_piece_positions (strip ground_truth) of
             Inl e \<Rightarrow> Inl e
           | Inr gt_pos \<Rightarrow> Inr (pred_pos = gt_pos)))"

text \<open>\<open>fen_to_board\<close>: the inner loop over the characters of one rank, and the outer loop
  over the ranks, both extending the same \<open>board\<close>. A board is a list of one-character
  strings.\<close>

fun expand_rank :: "string \<Rightarrow> string list \<Rightarrow> py_error + string list" where
  "expand_rank [] board = Inr board"
| "expand_rank (c # cs) board =
     (if isdigit c
      then (case int_of_char c of
              Inl e \<Rightarrow> Inl e
            | Inr n \<Rightarrow> expand_rank cs (board @ replicate n ''.''))
      else expand_rank cs (board @ [[c]]))"

fun expand_ranks :: "string list \<Rightarrow> string list \<Rightarrow> py_error + string list" where
  "expand_ranks [] board = Inr board"
| "expand_ranks (r # rs) board =
     (case expand_rank r board of Inl e \<Rightarrow> Inl e | Inr b \<Rightarrow> expand_ranks rs b)"

definition fen_to_board :: "string \<Rightarrow> py_error + string list" where
  "fen_to_board fen_pos = expand_ranks (split_on CHR ''/'' fen_pos) []"

text \<open>\<open>calculate_piece_accuracy\<close>: \<open>zip\<close> stops at the shorter board; the count is divided
  by \<open>64.0\<close> whatever the boards' lengths. Floats are modelled as reals.\<close>

definition count_matches :: "string list \<Rightarrow> string list \<Rightarrow> nat" where
  "count_matches pred_board gt_board = length (filter (\<lambda>(p, g). p = g) (zip pred_board gt_board))"

definition calculate_piece_accuracy :: "string \<Rightarrow> string \<Rightarrow> py_error + real" where
  "calculate_piece_accuracy predicted ground_truth =
     (case extract_piece_positions (strip predicted) of
        Inl e \<Rightarrow> Inl e
      | Inr pred_pos \<Rightarrow>
          (case extract_piece_positions (strip ground_truth) of
             Inl e \<Rightarrow> Inl e
           | Inr gt_pos \<Rightarrow>
               (case fen_to_board pred_pos of
                  Inl e \<Rightarrow> Inl e
                | Inr pred_board \<Rightarrow>
                    (case fen_to_board gt_pos of
                       Inl e \<Rightarrow> Inl e
                     | Inr gt_board \<Rightarrow> Inr (of_nat (count_matches pred_board gt_board) / 64)))))"

section \<open>Evaluation runner (evaluate.py)\<close>

text \<open>
  The predictor is a black box that may keep state between calls: it takes its state and
  the image path and gives an outcome and its next state. An outcome is a returned value,
  with the seconds that \<open>time.time()\<close> measured around the call, or an exception derived
  from \<open>Exception\<close>, with its \<open>str(e)\<close>, or an exception that is not derived from
  \<open>Exception\<close> (the \<open>SystemExit\<close> of a \<open>sys.exit()\<close> in the submission, a
  \<open>KeyboardInterrupt\<close>), with its name. A returned value is a \<open>str\<close>, or an object of
  another type, which carries the text of \<open>type(v)\<close> and what its truth test does: it is
  true, or false, or raises an exception derived from \<open>Exception\<close>, with its \<open>str(e)\<close>, as
  the truth test of an array of several elements does. The other methods of a returned
  object raise nothing outside \<open>Exception\<close> and leave the predictor's state alone.
\<close>

datatype truth = Truthy | Falsy | TruthRaises string

datatype pyval = PStr string | PNonStr string truth

datatype outcome = Returned pyval real | Raised string | RaisedBase string

type_synonym 's predictor = "'s \<Rightarrow> string \<Rightarrow> outcome \<times> 's"

text \<open>The dataset directory: its path, the names that the \<open>images\<close> directory lists, and
  the files of the \<open>labels\<close> directory by name. A label file is absent, or a regular file
  whose reading gives its text or raises \<open>UnicodeDecodeError\<close>.\<close>

datatype label_file = LabelText string | LabelUndecodable

record dataset =
  test_dir :: string
  image_names :: "string list"
  label_files :: "string \<Rightarrow> label_file option"

text \<open>One entry of \<open>results["predictions"]\<close>; a key the dictionary lacks is \<open>None\<close>.\<close>

record prediction =
  image_name :: string
  error :: "string option"
  predicted :: "string option"
  ground_truth :: "string option"
  correct :: bool
  piece_accuracy :: real
  time_seconds :: real

record metrics =
  total_images :: nat
  correct_predictions :: nat
  accuracy :: real
  avg_inference_time :: real
  total_time :: real
  avg_piece_accuracy :: real

record results =
  predictions :: "prediction list"
  timing :: "real list"
  metrics :: metrics

text \<open>\<open>images_dir.glob("*.png")\<close> keeps the names that end in \<open>.png\<close>; \<open>p.stem\<close> drops the
  last suffix, unless the last dot is the first or the last character.\<close>

definition glob_png :: "string list \<Rightarrow> string list" where
  "glob_png names = filter (\<lambda>n. endswith n ''.png'') names"

fun rfind :: "char \<Rightarrow> string \<Rightarrow> nat option" where
  "rfind c [] = None"
| "rfind c (x # xs) =
     (case rfind c xs of
        Some i \<Rightarrow> Some (Suc i)
      | None \<Rightarrow> (if x = c then Some 0 else None))"

definition stem :: "string \<Rightarrow> string" where
  "stem name =
     (case rfind CHR ''.'' name of
        None \<Rightarrow> name
      | Some i \<Rightarrow> (if 0 < i \<and> i < length name - 1 then take i name else name))"

text \<open>\<open>xs[:n]\<close>: a negative bound counts from the end.\<close>

definition slice_to :: "'a list \<Rightarrow> int \<Rightarrow> 'a list" where
  "slice_to xs n = (if 0 \<le> n then take (nat n) xs else take (length xs - nat (- n)) xs)"

text \<open>Lines 111 to 114: the sorted image files, truncated \<open>if max_samples:\<close>, a test that
  \<open>None\<close> and \<open>0\<close> both fail.\<close>

definition image_files :: "string list \<Rightarrow> int option \<Rightarrow> string list" where
  "image_files names max_samples =
     (let files = sort (filter (\<lambda>n. \<not> startswith n ''._'') (glob_png names))
      in case max_samples of
           None \<Rightarrow> files
         | Some n \<Rightarrow> (if n \<noteq> 0 then slice_to files n else files))"

definition image_path :: "dataset \<Rightarrow> string \<Rightarrow> string" where
  "image_path ds name = test_dir ds @ ''/images/'' @ name"

definition label_name :: "string \<Rightarrow> string" where
  "label_name name = stem name @ ''.txt''"

text \<open>Lines 124 to 131: the predictor is first tried on \<open>image_files[0]\<close>. Whatever it
  returns, and whatever it raises that \<open>except Exception\<close> catches, is only printed; on an
  empty list the index raises inside the \<open>try\<close> and the predictor is not called. An
  exception that is not derived from \<open>Exception\<close> leaves the function.\<close>

definition test_prediction ::
  "'s predictor \<Rightarrow> dataset \<Rightarrow> string list \<Rightarrow> 's \<Rightarrow> py_error option \<times> 's" where
  "test_prediction predict_func ds files s =
     (case files of
        [] \<Rightarrow> (None, s)
      | f # _ \<Rightarrow>
          (case predict_func s (image_path ds f) of
             (Returned v elapsed, s') \<Rightarrow> (None, s')
           | (Raised msg, s') \<Rightarrow> (None, s')
           | (RaisedBase b, s') \<Rightarrow> (Some (BaseException b), s')))"

definition error_prediction :: "string \<Rightarrow> string \<Rightarrow> real \<Rightarrow> prediction" where
  "error_prediction name msg t =
     \<lparr>image_name = name, error = Some msg, predicted = None, ground_truth = None,
      correct = False, piece_accuracy = 0, time_seconds = t\<rparr>"

definition type_text :: "pyval \<Rightarrow> string" where
  "type_text v = (case v of PStr _ \<Rightarrow> ''<class 'str'>'' | PNonStr ty _ \<Rightarrow> ty)"

text \<open>Line 155, \<open>not predicted or not isinstance(predicted, str)\<close>, which runs inside the
  \<open>try\<close> of line 149. \<open>not predicted\<close> comes first and tests the truth of the value: an
  empty \<open>str\<close> is invalid and a non-empty one passes; for another object the truth test
  may raise, and otherwise the object is invalid whatever its truth.\<close>

datatype validity = Valid string | Invalid | TestRaised string

definition validate_output :: "pyval \<Rightarrow> validity" where
  "validate_output v =
     (case v of
        PStr s \<Rightarrow> (if s = [] then Invalid else Valid s)
      | PNonStr ty Truthy \<Rightarrow> Invalid
      | PNonStr ty Falsy \<Rightarrow> Invalid
      | PNonStr ty (TruthRaises msg) \<Rightarrow> TestRaised msg)"

text \<open>Lines 180 to 193, for a non-empty string: the comparison, the piece accuracy and the
  two extractions run outside the \<open>try\<close>, so what they raise leaves the function.\<close>

definition score_prediction ::
  "string \<Rightarrow> string \<Rightarrow> string \<Rightarrow> real \<Rightarrow> py_error + prediction" where
  "score_prediction name pred truth elapsed =
     (case compare_positions pred truth of
        Inl e \<Rightarrow> Inl e
      | Inr c \<Rightarrow>
          (case calculate_piece_accuracy pred truth of
             Inl e \<Rightarrow> Inl e
           | Inr piece_acc \<Rightarrow>
               (case extract_piece_positions pred of
                  Inl e \<Rightarrow> Inl e
                | Inr pp \<Rightarrow>
                    (case extract_piece_positions truth of
                       Inl e \<Rightarrow> Inl e
                     | Inr gp \<Rightarrow>
                         Inr \<lparr>image_name = name, error = None, predicted = Some pp,
                              ground_truth = Some gp, correct = c,
                              piece_accuracy = piece_acc, time_seconds = elapsed\<rparr>))))"

text \<open>One turn of the loop of lines 133 to 207 (the progress prints left out): the two
  lists \<open>results["predictions"]\<close> and \<open>results["timing"]\<close> are the accumulator. The
  \<open>except Exception\<close> of line 167 catches what the call and the validity test raise, unless
  it is not derived from \<open>Exception\<close>: that leaves the function.\<close>

definition evaluate_image ::
  "'s predictor \<Rightarrow> dataset \<Rightarrow> string \<Rightarrow> prediction list \<times> real list \<Rightarrow> 's
     \<Rightarrow> (py_error + prediction list \<times> real list) \<times> 's" where
  "evaluate_image predict_func ds name acc s =
     (case label_files ds (label_name name) of
        None \<Rightarrow> (Inr acc, s)
      | Some LabelUndecodable \<Rightarrow> (Inr acc, s)
      | Some (LabelText txt) \<Rightarrow>
          (case predict_func s (image_path ds name) of
             (RaisedBase b, s') \<Rightarrow> (Inl (BaseException b), s')
           | (Raised msg, s') \<Rightarrow>
               (Inr (fst acc @ [error_prediction name msg 0], snd acc), s')
           | (Returned v elapsed, s') \<Rightarrow>
               (case validate_output v of
                  TestRaised msg \<Rightarrow>
                    (Inr (fst acc @ [error_prediction name msg 0], snd acc), s')
                | Invalid \<Rightarrow>
                    (Inr (fst acc @ [error_prediction name
                                       (''Invalid output type: '' @ type_text v) elapsed],
                          snd acc @ [elapsed]), s')
                | Valid pred \<Rightarrow>
                    (case score_prediction name pred (strip txt) elapsed of
                       Inl e \<Rightarrow> (Inl e, s')
                     | Inr r \<Rightarrow> (Inr (fst acc @ [r], snd acc @ [elapsed]), s')))))"

fun evaluate_images ::
  "'s predictor \<Rightarrow> dataset \<Rightarrow> string list \<Rightarrow> prediction list \<times> real list \<Rightarrow> 's
     \<Rightarrow> (py_error + prediction list \<times> real list) \<times> 's" where
  "evaluate_images predict_func ds [] acc s = (Inr acc, s)"
| "evaluate_images predict_func ds (name # names) acc s =
     (case evaluate_image predict_func ds name acc s of
        (Inl e, s') \<Rightarrow> (Inl e, s')
      | (Inr acc', s') \<Rightarrow> evaluate_images predict_func ds names acc' s')"

text \<open>Lines 209 to 220: each of the three divisions stands behind its test. \<open>sum\<close> of an
  empty list is \<open>0\<close>.\<close>

definition final_metrics :: "prediction list \<Rightarrow> real list \<Rightarrow> py_error + metrics" where
  "final_metrics preds timings =
     (let total = length preds;
          correct_count = length (filter correct preds)
      in case (if total > 0 then true_divide (of_nat correct_count) (of_nat total) else Inr 0) of
           Inl e \<Rightarrow> Inl e
         | Inr acc \<Rightarrow>
       (case (if timings \<noteq> [] then true_divide (sum_list timings) (of_nat (length timings))
              else Inr 0) of
           Inl e \<Rightarrow> Inl e
         | Inr avg_time \<Rightarrow>
       (case (if total > 0 then true_divide (sum_list (map piece_accuracy preds)) (of_nat total)
              else Inr 0) of
           Inl e \<Rightarrow> Inl e
         | Inr avg_piece \<Rightarrow>
             Inr \<lparr>total_images = total,
                  correct_predictions = correct_count,
                  accuracy = acc,
                  avg_inference_time = avg_time,
                  total_time = sum_list timings,
                  avg_piece_accuracy = avg_piece\<rparr>)))"

definition evaluate_submission ::
  "dataset \<Rightarrow> 's predictor \<Rightarrow> int option \<Rightarrow> 's \<Rightarrow> (py_error + results) \<times> 's" where
  "evaluate_submission ds predict_func max_samples s0 =
     (let files = image_files (image_names ds) max_samples
      in case test_prediction predict_func ds files s0 of
           (Some e, s1) \<Rightarrow> (Inl e, s1)
         | (None, s1) \<Rightarrow>
             (case evaluate_images predict_func ds files ([], []) s1 of
                (Inl e, s2) \<Rightarrow> (Inl e, s2)
              | (Inr (preds, timings), s2) \<Rightarrow>
                  (case final_metrics preds timings of
                     Inl e \<Rightarrow> (Inl e, s2)
                   | Inr m \<Rightarrow>
                       (Inr \<lparr>predictions = preds, timing = timings, metrics = m\<rparr>, s2))))"

text \<open>A predictor that also writes down each call, the path and the outcome, so that the
  calls of a run can be counted.\<close>

definition logged :: "'s predictor \<Rightarrow> ('s \<times> (string \<times> outcome) list) predictor" where
  "logged predict_func =
     (\<lambda>(s, calls) path.
        (case predict_func s path of (out, s') \<Rightarrow> (out, (s', calls @ [(path, out)]))))"

section \<open>Running the evaluation script (api_server.py, handler.py)\<close>

text \<open>
  \<open>subprocess.run(cmd, check=True, timeout=...)\<close> is an outside call: it returns, or raises
  \<open>TimeoutExpired\<close>, \<open>CalledProcessError\<close> (with \<open>str(e)\<close> and the captured \<open>stderr\<close>) or
  something else (with \<open>str(e)\<close>). It is a parameter, given the command and the timeout in
  seconds, as are the reading of the result file (which gives \<open>str(e)\<close> when it raises)
  and the seconds measured around the call.
\<close>

datatype subprocess_result =
  Exited | TimeoutExpired | CalledProcessError string string | OtherException string

record eval_env =
  eval_script :: string
  subprocess_run :: "string list \<Rightarrow> nat \<Rightarrow> subprocess_result"
  load_results :: "string \<Rightarrow> string + results"
  measured_eval_time :: real

text \<open>The dictionary that \<open>run_evaluation\<close> returns, with its keys \<open>status\<close>, \<open>results\<close>,
  \<open>eval_time\<close>, \<open>error\<close> and \<open>details\<close>; an absent key is \<open>None\<close>.\<close>

record eval_result =
  eval_status :: string
  eval_results :: "results option"
  eval_time :: "real option"
  eval_error :: "string option"
  eval_details :: "string option"

definition eval_command :: "eval_env \<Rightarrow> string \<Rightarrow> string \<Rightarrow> bool \<Rightarrow> string list" where
  "eval_command env submission_dir test_dataset_path quick_test =
     [''python3'', eval_script env, submission_dir, test_dataset_path, ''-o'',
      submission_dir @ ''/results.json'']
     @ (if quick_test then [''-n'', ''100''] else [])"

definition error_result :: "string \<Rightarrow> string option \<Rightarrow> eval_result" where
  "error_result msg details =
     \<lparr>eval_status = ''error'', eval_results = None, eval_time = None,
      eval_error = Some msg, eval_details = details\<rparr>"

definition success_result :: "results \<Rightarrow> real \<Rightarrow> eval_result" where
  "success_result r t =
     \<lparr>eval_status = ''success'', eval_results = Some r, eval_time = Some t,
      eval_error = None, eval_details = None\<rparr>"

text \<open>\<open>run_evaluation\<close> of api_server.py.\<close>

definition run_evaluation :: "eval_env \<Rightarrow> string \<Rightarrow> string \<Rightarrow> bool \<Rightarrow> eval_result" where
  "run_evaluation env submission_dir test_dataset_path quick_test =
     (case subprocess_run env (eval_command env submission_dir test_dataset_path quick_test) 900 of
        Exited \<Rightarrow>
          (case load_results env (submission_dir @ ''/results.json'') of
             Inl msg \<Rightarrow> error_result msg None
           | Inr r \<Rightarrow> success_result r (measured_eval_time env))
      | TimeoutExpired \<Rightarrow> error_result ''Evaluation timed out after 15 minutes'' None
      | CalledProcessError msg stderr \<Rightarrow> error_result msg None
      | OtherException msg \<Rightarrow> error_result msg None)"

text \<open>\<open>run_evaluation\<close> of handler.py.\<close>

definition handler_run_evaluation ::
  "eval_env \<Rightarrow> string \<Rightarrow> string \<Rightarrow> bool \<Rightarrow> eval_result" where
  "handler_run_evaluation env submission_dir test_dataset_path quick_test =
     (case subprocess_run env (eval_command env submission_dir test_dataset_path quick_test) 900 of
        Exited \<Rightarrow>
          (case load_results env (submission_dir @ ''/results.json'') of
             Inl msg \<Rightarrow> error_result msg None
           | Inr r \<Rightarrow> success_result r (measured_eval_time env))
      | TimeoutExpired \<Rightarrow> error_result ''Evaluation timed out (>15 minutes)'' None
      | CalledProcessError msg stderr \<Rightarrow> error_result ''Evaluation failed'' (Some stderr)
      | OtherException msg \<Rightarrow> error_result msg None)"

section \<open>Job storage (api_server.py)\<close>

text \<open>
  A job record is a dictionary object, and the global \<open>jobs\<close> maps a job id to such an
  object. Since the claims depend on who shares an object, the objects live in a heap, a
  map from addresses to records, with the next free address; \<open>jobs\<close> is an association
  list in insertion order whose values are addresses. The status strings \<open>queued\<close>,
  \<open>processing\<close>, \<open>completed\<close> and \<open>failed\<close> are the four constructors of \<open>status\<close>. The
  keys \<open>submission_id\<close>, \<open>full_name\<close>, \<open>results\<close> and \<open>error\<close> of a job are the fields
  \<open>job_submission_id\<close>, \<open>job_full_name\<close>, \<open>job_results\<close> and \<open>job_error\<close>.
\<close>

datatype status = Queued | Processing | Completed | Failed

record results_summary =
  summary_submission_id :: int
  summary_metrics :: metrics
  results_s3_key :: string
  summary_eval_time :: "real option"

record job =
  job_id :: string
  status :: status
  job_submission_id :: int
  job_full_name :: string
  created_at :: string
  started_at :: "string option"
  completed_at :: "string option"
  job_results :: "results_summary option"
  job_error :: "string option"

record evaluation_request =
  submission_id :: int
  submission_s3_key :: string
  full_name :: string
  quick_test :: bool

record server =
  heap :: "nat \<Rightarrow> job option"
  next_addr :: nat
  jobs :: "(string \<times> nat) list"

datatype http_error = NotFound

definition empty_server :: server where
  "empty_server = \<lparr>heap = (\<lambda>_. None), next_addr = 0, jobs = []\<rparr>"

text \<open>\<open>jobs[job_id]\<close> read through to the record.\<close>

definition job_record :: "server \<Rightarrow> string \<Rightarrow> job option" where
  "job_record srv jid = (case map_of (jobs srv) jid of None \<Rightarrow> None | Some a \<Rightarrow> heap srv a)"

text \<open>\<open>jobs[job_id][key] = value\<close>, for the keys that \<open>f\<close> sets: the object that \<open>jobs\<close>
  holds is changed in place, and an absent id raises \<open>KeyError\<close>. An address that \<open>jobs\<close>
  holds is always allocated.\<close>

definition set_fields :: "string \<Rightarrow> (job \<Rightarrow> job) \<Rightarrow> server \<Rightarrow> py_error + server" where
  "set_fields jid f srv =
     (case map_of (jobs srv) jid of
        None \<Rightarrow> Inl KeyError
      | Some a \<Rightarrow>
          (case heap srv a of
             None \<Rightarrow> Inl KeyError
           | Some r \<Rightarrow> Inr (srv\<lparr>heap := (heap srv)(a \<mapsto> f r)\<rparr>)))"

text \<open>The write of lines 190 to 192.\<close>

definition mark_processing :: "string \<Rightarrow> string \<Rightarrow> server \<Rightarrow> py_error + server" where
  "mark_processing jid now =
     set_fields jid (\<lambda>r. r\<lparr>status := Processing, started_at := Some now\<rparr>)"

text \<open>The write of lines 238 to 241, and again of lines 283 to 286.\<close>

definition mark_failed :: "string \<Rightarrow> string \<Rightarrow> string \<Rightarrow> server \<Rightarrow> py_error + server" where
  "mark_failed jid msg now =
     set_fields jid (\<lambda>r. r\<lparr>status := Failed, job_error := Some msg, completed_at := Some now\<rparr>)"

text \<open>The write of lines 265 to 273.\<close>

definition mark_completed ::
  "string \<Rightarrow> results_summary \<Rightarrow> string \<Rightarrow> server \<Rightarrow> py_error + server" where
  "mark_completed jid summary now =
     set_fields jid
       (\<lambda>r. r\<lparr>status := Completed, job_results := Some summary, completed_at := Some now\<rparr>)"

text \<open>\<open>submit_evaluation\<close>: the id that \<open>uuid4\<close> gave and the time are parameters. A new
  record object is stored under the id; the background task is \<open>process_evaluation\<close>
  below.\<close>

definition submit_evaluation :: "string \<Rightarrow> string \<Rightarrow> evaluation_request \<Rightarrow> server \<Rightarrow> server" where
  "submit_evaluation jid now request srv =
     (let a = next_addr srv
      in srv\<lparr>heap := (heap srv)(a \<mapsto>
                \<lparr>job_id = jid, status = Queued,
                 job_submission_id = submission_id request,
                 job_full_name = full_name request,
                 created_at = now, started_at = None, completed_at = None,
                 job_results = None, job_error = None\<rparr>),
             next_addr := Suc a,
             jobs := AList.update jid a (jobs srv)\<rparr>)"

text \<open>\<open>get_job_status\<close>: \<open>jobs[job_id].copy()\<close> makes a new object with the same fields and
  returns it; the result is its address.\<close>

definition get_job_status :: "string \<Rightarrow> server \<Rightarrow> (http_error + nat) \<times> server" where
  "get_job_status jid srv =
     (case map_of (jobs srv) jid of
        None \<Rightarrow> (Inl NotFound, srv)
      | Some a \<Rightarrow>
          (let b = next_addr srv
           in (Inr b, srv\<lparr>heap := (heap srv)(b := heap srv a), next_addr := Suc b\<rparr>)))"

definition delete_job :: "string \<Rightarrow> server \<Rightarrow> http_error + server" where
  "delete_job jid srv =
     (case map_of (jobs srv) jid of
        None \<Rightarrow> Inl NotFound
      | Some a \<Rightarrow> Inr (srv\<lparr>jobs := AList.delete jid (jobs srv)\<rparr>))"

text \<open>\<open>list_jobs\<close>: \<open>list(jobs.values())\<close> is a new list of the objects that \<open>jobs\<close> holds,
  so the result is the count and their addresses.\<close>

definition list_jobs :: "server \<Rightarrow> nat \<times> nat list" where
  "list_jobs srv = (length (jobs srv), map snd (jobs srv))"

section \<open>The background task (api_server.py)\<close>

text \<open>
  What the task meets outside the job storage is a parameter: the three times that
  \<open>utcnow\<close> gives (at the start, at the end of the evaluation, in the exception handler),
  the dataset path or the \<open>str(e)\<close> of what \<open>ensure_test_dataset\<close> raised, the temporary
  directory, what the download, the extraction and \<open>pip install\<close> raised if they did,
  whether \<open>predict.py\<close> and \<open>requirements.txt\<close> exist, the environment of
  \<open>run_evaluation\<close>, the text of \<open>int(time.time())\<close>, and what \<open>put_object\<close> and the
  removal of the temporary directory raised if they did.
\<close>

record process_env =
  now_started :: string
  now_finished :: string
  now_except :: string
  ensure_test_dataset :: "string + string"
  temp_dir :: string
  download :: "string option"
  extract_tarball :: "string option"
  has_predict_py :: bool
  has_requirements :: bool
  pip_install :: "string option"
  evaluation :: eval_env
  unix_time :: string
  put_object :: "string option"
  cleanup :: "string option"

text \<open>\<open>str(e)\<close> of the \<open>KeyError\<close> that an absent job id raises.\<close>

definition key_error_text :: "string \<Rightarrow> string" where
  "key_error_text jid = [CHR 0x27] @ jid @ [CHR 0x27]"

definition results_key :: "process_env \<Rightarrow> evaluation_request \<Rightarrow> string" where
  "results_key env request =
     ''results/'' @ map (\<lambda>c. if c = CHR '' '' then CHR ''_'' else c) (full_name request)
       @ ''/'' @ unix_time env @ ''/results.json''"

text \<open>Lines 201 to 276, the body of the \<open>with tempfile.TemporaryDirectory()\<close> block:
  \<open>Inl msg\<close> is an exception with that \<open>str(e)\<close> leaving the block, \<open>Inr ()\<close> is the block
  left by its end or by \<open>return\<close>.\<close>

definition evaluate_in_temp_dir ::
  "process_env \<Rightarrow> string \<Rightarrow> evaluation_request \<Rightarrow> string \<Rightarrow> server
     \<Rightarrow> (string + unit) \<times> server" where
  "evaluate_in_temp_dir env jid request test_dataset_path srv =
     (case download env of
        Some msg \<Rightarrow> (Inl msg, srv)
      | None \<Rightarrow>
     (case extract_tarball env of
        Some msg \<Rightarrow> (Inl msg, srv)
      | None \<Rightarrow>
     (if \<not> has_predict_py env then (Inl ''predict.py not found in submission'', srv)
      else
     (case (if has_requirements env then pip_install env else None) of
        Some msg \<Rightarrow> (Inl msg, srv)
      | None \<Rightarrow>
     (let eval_result = run_evaluation (evaluation env) (temp_dir env @ ''/submission'')
                          test_dataset_path (quick_test request)
      in if eval_status eval_result \<noteq> ''success''
         then (case mark_failed jid
                      (case eval_error eval_result of Some e \<Rightarrow> e | None \<Rightarrow> ''Unknown error'')
                      (now_finished env) srv of
                 Inl e \<Rightarrow> (Inl (key_error_text jid), srv)
               | Inr srv' \<Rightarrow> (Inr (), srv'))
         else (case eval_results eval_result of
                 None \<Rightarrow> (Inl (key_error_text ''results''), srv)
               | Some r \<Rightarrow>
                   (case put_object env of
                      Some msg \<Rightarrow> (Inl msg, srv)
                    | None \<Rightarrow>
                        (case mark_completed jid
                                \<lparr>summary_submission_id = submission_id request,
                                 summary_metrics = metrics r,
                                 results_s3_key = results_key env request,
                                 summary_eval_time = eval_time eval_result\<rparr>
                                (now_finished env) srv of
                           Inl e \<Rightarrow> (Inl (key_error_text jid), srv)
                         | Inr srv' \<Rightarrow> (Inr (), srv')))))))))"

text \<open>Lines 188 to 276, the \<open>try\<close> block: the removal of the temporary directory runs
  however the \<open>with\<close> block is left, and what it raises replaces what the block raised.\<close>

definition try_block ::
  "process_env \<Rightarrow> string \<Rightarrow> evaluation_request \<Rightarrow> server \<Rightarrow> (string + unit) \<times> server" where
  "try_block env jid request srv =
     (case mark_processing jid (now_started env) srv of
        Inl e \<Rightarrow> (Inl (key_error_text jid), srv)
      | Inr srv1 \<Rightarrow>
          (case ensure_test_dataset env of
             Inl msg \<Rightarrow> (Inl msg, srv1)
           | Inr test_dataset_path \<Rightarrow>
               (case evaluate_in_temp_dir env jid request test_dataset_path srv1 of
                  (r, srv2) \<Rightarrow>
                    (case cleanup env of
                       Some msg \<Rightarrow> (Inl msg, srv2)
                     | None \<Rightarrow> (r, srv2)))))"

text \<open>\<open>process_evaluation\<close>: the handler of lines 278 to 286 writes the failure; a
  \<open>KeyError\<close> raised there leaves the task.\<close>

definition process_evaluation ::
  "process_env \<Rightarrow> string \<Rightarrow> evaluation_request \<Rightarrow> server \<Rightarrow> (py_error + unit) \<times> server" where
  "process_evaluation env jid request srv =
     (case try_block env jid request srv of
        (Inr u, srv') \<Rightarrow> (Inr (), srv')
      | (Inl msg, srv') \<Rightarrow>
          (case mark_failed jid msg (now_except env) srv' of
             Inl e \<Rightarrow> (Inl e, srv')
           | Inr srv'' \<Rightarrow> (Inr (), srv'')))"

section \<open>Well-formed positions and boards\<close>

text \<open>
  The width of a rank: a decimal digit counts for its value, a run of empty squares, and
  any other character for one occupied square. A character that is a digit without a
  decimal value denotes no run, and a rank that holds one has no width.
\<close>

fun rank_width :: "string \<Rightarrow> nat option" where
  "rank_width [] = Some 0"
| "rank_width (c # cs) =
     (case rank_width cs of
        None \<Rightarrow> None
      | Some w \<Rightarrow>
          (if isdigit c
           then (case int_of_char c of Inl e \<Rightarrow> None | Inr n \<Rightarrow> Some (n + w))
           else Some (Suc w)))"

text \<open>A well-formed piece-placement string: eight ranks separated by \<open>/\<close>, each of width
  eight.\<close>

definition well_formed :: "string \<Rightarrow> bool" where
  "well_formed fen =
     (let ranks = split_on CHR ''/'' fen
      in length ranks = 8 \<and> list_all (\<lambda>r. rank_width r = Some 8) ranks)"

text \<open>A board of 64 symbols: each is the empty square \<open>.\<close> or one character that is
  neither a digit nor the separator.\<close>

definition board_symbol :: "string \<Rightarrow> bool" where
  "board_symbol s =
     (s = ''.'' \<or> (case s of [c] \<Rightarrow> \<not> isdigit c \<and> c \<noteq> CHR ''/'' | _ \<Rightarrow> False))"

definition known_board :: "string list \<Rightarrow> bool" where
  "known_board board = (length board = 64 \<and> list_all board_symbol board)"

text \<open>Building the position string of a board, the way the notation is written: the
  board is cut into ranks of eight squares, a run of \<open>n\<close> empty squares is written as the
  digit \<open>n\<close> and an occupied square as its symbol, and the ranks are joined by \<open>/\<close>. The
  source has no such function; this one follows the notation that \<open>fen_to_board\<close> reads.\<close>

definition digit_char :: "nat \<Rightarrow> char" where
  "digit_char n = char_of (48 + n)"

definition flush_run :: "nat \<Rightarrow> string" where
  "flush_run n = (if n = 0 then [] else [digit_char n])"

fun build_rank :: "nat \<Rightarrow> string list \<Rightarrow> string" where
  "build_rank n [] = flush_run n"
| "build_rank n (s # ss) =
     (if s = ''.'' then build_rank (Suc n) ss else flush_run n @ s @ build_rank 0 ss)"

fun join_ranks :: "string list \<Rightarrow> string" where
  "join_ranks [] = []"
| "join_ranks [r] = r"
| "join_ranks (r # rs) = r @ ''/'' @ join_ranks rs"

definition board_ranks :: "string list \<Rightarrow> string list list" where
  "board_ranks board = map (\<lambda>i. take 8 (drop (8 * i) board)) [0..<8]"

definition board_to_fen :: "string list \<Rightarrow> string" where
  "board_to_fen board = join_ranks (map (build_rank 0) (board_ranks board))"

section \<open>Reading a run\<close>

text \<open>A sample has a label when its label file exists and can be decoded.\<close>

definition has_label :: "dataset \<Rightarrow> string \<Rightarrow> bool" where
  "has_label ds name =
     (case label_files ds (label_name name) of Some (LabelText _) \<Rightarrow> True | _ \<Rightarrow> False)"

text \<open>The seconds that a call of the loop adds to \<open>results["timing"]\<close>: those of a call
  that returned a \<open>str\<close>, or an object whose truth test gave a truth value.\<close>

definition outcome_times :: "outcome \<Rightarrow> real list" where
  "outcome_times out =
     (case out of
        Returned (PStr s) t \<Rightarrow> [t]
      | Returned (PNonStr ty Truthy) t \<Rightarrow> [t]
      | Returned (PNonStr ty Falsy) t \<Rightarrow> [t]
      | Returned (PNonStr ty (TruthRaises msg)) t \<Rightarrow> []
      | Raised msg \<Rightarrow> []
      | RaisedBase b \<Rightarrow> [])"

definition timed_seconds :: "(string \<times> outcome) list \<Rightarrow> real list" where
  "timed_seconds calls = concat (map (\<lambda>call. outcome_times (snd call)) calls)"



text \<open>The entry that a call of the loop leaves in \<open>results["predictions"]\<close>: after an
  exception, or after a value whose truth test raised, the error entry with that message
  and \<open>time_seconds\<close> \<open>0.0\<close>; after an empty string or another object with a truth value,
  the error entry that names the type, with the measured seconds; after a non-empty
  string, an entry without \<open>error\<close>, with the measured seconds. A call that raised outside
  \<open>Exception\<close> leaves no entry.\<close>

definition records_call :: "prediction \<Rightarrow> string \<times> outcome \<Rightarrow> bool" where
  "records_call r call =
     (case snd call of
        Raised msg \<Rightarrow> r = error_prediction (image_name r) msg 0
      | RaisedBase b \<Rightarrow> False
      | Returned (PStr s) t \<Rightarrow>
          (if s = []
           then r = error_prediction (image_name r) ''Invalid output type: <class 'str'>'' t
           else error r = None \<and> time_seconds r = t)
      | Returned (PNonStr ty (TruthRaises msg)) t \<Rightarrow> r = error_prediction (image_name r) msg 0
      | Returned (PNonStr ty Truthy) t \<Rightarrow>
          r = error_prediction (image_name r) (''Invalid output type: '' @ ty) t
      | Returned (PNonStr ty Falsy) t \<Rightarrow>
          r = error_prediction (image_name r) (''Invalid output type: '' @ ty) t)"

text \<open>The numbers that the metrics hold once the divisions are carried out.\<close>

definition guarded_metrics :: "prediction list \<Rightarrow> real list \<Rightarrow> metrics" where
  "guarded_metrics preds timings =
     \<lparr>total_images = length preds,
      correct_predictions = length (filter correct preds),
      accuracy = (if preds = [] then 0
                  else of_nat (length (filter correct preds)) / of_nat (length preds)),
      avg_inference_time = (if timings = [] then 0
                            else sum_list timings / of_nat (length timings)),
      total_time = sum_list timings,
      avg_piece_accuracy = (if preds = [] then 0
                            else sum_list (map piece_accuracy preds) / of_nat (length preds))\<rparr>"

text \<open>The metrics in which every number is zero.\<close>

definition empty_metrics :: metrics where
  "empty_metrics = \<lparr>total_images = 0, correct_predictions = 0, accuracy = 0,
     avg_inference_time = 0, total_time = 0, avg_piece_accuracy = 0\<rparr>"


text \<open>A call fails, in the words of the claim, when it raises an exception derived from
  \<open>Exception\<close>, or returns a value that is not a string or is the empty string.\<close>

definition non_string_or_empty :: "pyval \<Rightarrow> bool" where
  "non_string_or_empty v = (case v of PStr s \<Rightarrow> s = [] | PNonStr ty t \<Rightarrow> True)"

definition failed_outcome :: "outcome \<Rightarrow> bool" where
  "failed_outcome out =
     (case out of
        Raised msg \<Rightarrow> True
      | Returned v t \<Rightarrow> non_string_or_empty v
      | RaisedBase b \<Rightarrow> False)"

text \<open>The entry that a failed call leaves, by the lines 157 to 163 and 171 to 177.\<close>

definition failure_entry :: "string \<Rightarrow> outcome \<Rightarrow> prediction option" where
  "failure_entry name out =
     (case out of
        Raised msg \<Rightarrow> Some (error_prediction name msg 0)
      | RaisedBase b \<Rightarrow> None
      | Returned (PStr s) t \<Rightarrow>
          (if s = [] then Some (error_prediction name ''Invalid output type: <class 'str'>'' t)
           else None)
      | Returned (PNonStr ty (TruthRaises msg)) t \<Rightarrow> Some (error_prediction name msg 0)
      | Returned (PNonStr ty Truthy) t \<Rightarrow>
          Some (error_prediction name (''Invalid output type: '' @ ty) t)
      | Returned (PNonStr ty Falsy) t \<Rightarrow>
          Some (error_prediction name (''Invalid output type: '' @ ty) t))"

text \<open>What a write leaves: the record of a job id, or the object at an address, after a
  write that may have raised.\<close>

definition job_after :: "string \<Rightarrow> py_error + server \<Rightarrow> py_error + job option" where
  "job_after jid r = (case r of Inl e \<Rightarrow> Inl e | Inr srv \<Rightarrow> Inr (job_record srv jid))"

definition object_after :: "nat \<Rightarrow> py_error + server \<Rightarrow> py_error + job option" where
  "object_after a r = (case r of Inl e \<Rightarrow> Inl e | Inr srv \<Rightarrow> Inr (heap srv a))"

text \<open>Every address that \<open>jobs\<close> holds has been allocated.\<close>

definition registry_ok :: "server \<Rightarrow> bool" where
  "registry_ok srv = list_all (\<lambda>entry. snd entry < next_addr srv) (jobs srv)"

section \<open>Example inputs\<close>

text \<open>A dataset of three images, listed out of order beside a metadata file and a text
  file; \<open>c.png\<close> has no label. The predictor counts its calls, raises on \<open>a.png\<close> and
  returns the empty board elsewhere, in two seconds.\<close>

definition example_dataset :: dataset where
  "example_dataset =
     \<lparr>test_dir = ''data'',
      image_names = [''b.png'', ''a.png'', ''c.png'', ''._d.png'', ''notes.txt''],
      label_files = map_of [(''a.txt'', LabelText ''8/8/8/8/8/8/8/7k''),
                            (''b.txt'', LabelText ''8/8/8/8/8/8/8/8 w - - 0 1'')]\<rparr>"

definition example_predictor :: "nat predictor" where
  "example_predictor s path =
     (if path = ''data/images/a.png'' then Raised ''boom''
      else Returned (PStr ''8/8/8/8/8/8/8/8'') 2, Suc s)"

definition example_failure :: prediction where
  "example_failure =
     \<lparr>image_name = ''a.png'', error = Some ''boom'', predicted = None, ground_truth = None,
      correct = False, piece_accuracy = 0, time_seconds = 0\<rparr>"

definition example_success :: prediction where
  "example_success =
     \<lparr>image_name = ''b.png'', error = None, predicted = Some ''8/8/8/8/8/8/8/8'',
      ground_truth = Some ''8/8/8/8/8/8/8/8'', correct = True, piece_accuracy = 1,
      time_seconds = 2\<rparr>"

definition example_results :: results where
  "example_results =
     \<lparr>predictions = [example_failure, example_success],
      timing = [2],
      metrics = \<lparr>total_images = 2, correct_predictions = 1, accuracy = 1 / 2,
                 avg_inference_time = 2, total_time = 2, avg_piece_accuracy = 1 / 2\<rparr>\<rparr>"

definition example_calls :: "(string \<times> outcome) list" where
  "example_calls =
     [(''data/images/a.png'', Raised ''boom''),
      (''data/images/a.png'', Raised ''boom''),
      (''data/images/b.png'', Returned (PStr ''8/8/8/8/8/8/8/8'') 2)]"

definition empty_dataset :: dataset where
  "empty_dataset = \<lparr>test_dir = ''data'', image_names = [], label_files = (\<lambda>_. None)\<rparr>"

definition empty_results :: results where
  "empty_results = \<lparr>predictions = [], timing = [], metrics = empty_metrics\<rparr>"

text \<open>A dataset of one labelled image and a predictor that always returns its label.\<close>

definition single_dataset :: dataset where
  "single_dataset =
     \<lparr>test_dir = ''data'', image_names = [''a.png''],
      label_files = map_of [(''a.txt'', LabelText ''8/8/8/8/8/8/8/8'')]\<rparr>"

definition empty_board_predictor :: "unit predictor" where
  "empty_board_predictor s path = (Returned (PStr ''8/8/8/8/8/8/8/8'') 2, s)"

definition single_results :: results where
  "single_results =
     \<lparr>predictions =
        [\<lparr>image_name = ''a.png'', error = None, predicted = Some ''8/8/8/8/8/8/8/8'',
          ground_truth = Some ''8/8/8/8/8/8/8/8'', correct = True, piece_accuracy = 1,
          time_seconds = 2\<rparr>],
      timing = [2],
      metrics = \<lparr>total_images = 1, correct_predictions = 1, accuracy = 1,
                 avg_inference_time = 2, total_time = 2, avg_piece_accuracy = 1\<rparr>\<rparr>"

text \<open>A request, and a task in which the evaluation succeeds and the removal of the
  temporary directory raises; in \<open>timeout_env\<close> the evaluation script runs out of time
  instead. \<open>queued_server\<close> is the storage after the request was submitted, and
  \<open>completed_server\<close> the storage once the job has been completed.\<close>

definition example_request :: evaluation_request where
  "example_request =
     \<lparr>submission_id = 7, submission_s3_key = ''submissions/ann/1/submission.tar.gz'',
      full_name = ''Ann Lee'', quick_test = False\<rparr>"

definition example_eval_env :: eval_env where
  "example_eval_env =
     \<lparr>eval_script = ''/app/evaluate.py'',
      subprocess_run = (\<lambda>cmd timeout. Exited),
      load_results = (\<lambda>path. Inr example_results),
      measured_eval_time = 5\<rparr>"

definition example_env :: process_env where
  "example_env =
     \<lparr>now_started = ''t1'', now_finished = ''t2'', now_except = ''t3'',
      ensure_test_dataset = Inr ''/workspace/dataset_test'',
      temp_dir = ''/tmp/tmp1'',
      download = None, extract_tarball = None,
      has_predict_py = True, has_requirements = False, pip_install = None,
      evaluation = example_eval_env,
      unix_time = ''1700000000'',
      put_object = None,
      cleanup = Some ''Permission denied''\<rparr>"

definition timeout_env :: process_env where
  "timeout_env =
     example_env\<lparr>evaluation := example_eval_env\<lparr>subprocess_run := (\<lambda>cmd timeout. TimeoutExpired)\<rparr>,
                 cleanup := None\<rparr>"

definition queued_job :: job where
  "queued_job =
     \<lparr>job_id = ''job-1'', status = Queued, job_submission_id = 7, job_full_name = ''Ann Lee'',
      created_at = ''t0'', started_at = None, completed_at = None,
      job_results = None, job_error = None\<rparr>"

definition queued_server :: server where
  "queued_server = submit_evaluation ''job-1'' ''t0'' example_request empty_server"

definition example_summary :: results_summary where
  "example_summary =
     \<lparr>summary_submission_id = 7, summary_metrics = metrics example_results,
      results_s3_key = ''results/Ann_Lee/1700000000/results.json'',
      summary_eval_time = Some 5\<rparr>"

definition completed_job :: job where
  "completed_job =
     queued_job\<lparr>status := Completed, started_at := Some ''t1'', completed_at := Some ''t2'',
                job_results := Some example_summary\<rparr>"

definition completed_server :: server where
  "completed_server =
     \<lparr>heap = (\<lambda>a. if a = 0 then Some completed_job else None), next_addr = 1,
      jobs = [(''job-1'', 0)]\<rparr>"

text \<open>A dataset of five labelled images and a predictor that fails on four of them: it
  raises on \<open>a.png\<close>, returns the empty string on \<open>b.png\<close>, \<open>None\<close> on \<open>c.png\<close>, and on
  \<open>d.png\<close> an array whose truth test raises; on \<open>e.png\<close> it returns the label.\<close>

definition failing_dataset :: dataset where
  "failing_dataset =
     \<lparr>test_dir = ''data'',
      image_names = [''a.png'', ''b.png'', ''c.png'', ''d.png'', ''e.png''],
      label_files = (\<lambda>name. Some (LabelText ''8/8/8/8/8/8/8/8''))\<rparr>"

definition array_value :: pyval where
  "array_value = PNonStr ''<class 'numpy.ndarray'>'' (TruthRaises ''The truth value is ambiguous'')"

definition failing_predictor :: "nat predictor" where
  "failing_predictor s path =
     (if path = ''data/images/a.png'' then Raised ''boom''
      else if path = ''data/images/b.png'' then Returned (PStr []) 1
      else if path = ''data/images/c.png'' then Returned (PNonStr ''<class 'NoneType'>'' Falsy) 1
      else if path = ''data/images/d.png'' then Returned array_value 3
      else Returned (PStr ''8/8/8/8/8/8/8/8'') 2,
      Suc s)"

definition failing_entries :: "prediction list" where
  "failing_entries =
     [error_prediction ''a.png'' ''boom'' 0,
      error_prediction ''b.png'' ''Invalid output type: <class 'str'>'' 1,
      error_prediction ''c.png'' ''Invalid output type: <class 'NoneType'>'' 1,
      error_prediction ''d.png'' ''The truth value is ambiguous'' 0,
      \<lparr>image_name = ''e.png'', error = None, predicted = Some ''8/8/8/8/8/8/8/8'',
       ground_truth = Some ''8/8/8/8/8/8/8/8'', correct = True, piece_accuracy = 1,
       time_seconds = 2\<rparr>]"

definition failing_results :: results where
  "failing_results =
     \<lparr>predictions = failing_entries,
      timing = [1, 1, 2],
      metrics = \<lparr>total_images = 5, correct_predictions = 1, accuracy = 1 / 5,
                 avg_inference_time = 4 / 3, total_time = 4, avg_piece_accuracy = 1 / 5\<rparr>\<rparr>"



text \<open>A predictor that leaves the interpreter on \<open>b.png\<close>, as a submission that calls
  \<open>sys.exit()\<close> does.\<close>

definition exiting_predictor :: "nat predictor" where
  "exiting_predictor s path =
     (if path = ''data/images/b.png'' then RaisedBase ''SystemExit''
      else Returned (PStr ''8/8/8/8/8/8/8/8'') 2,
      Suc s)"



section \<open>The loop of the evaluation runner\<close>

lemma evaluate_images_append:
  "evaluate_images p ds (xs @ ys) acc s =
     (case evaluate_images p ds xs acc s of
        (Inl e, s') \<Rightarrow> (Inl e, s')
      | (Inr acc', s') \<Rightarrow> evaluate_images p ds ys acc' s')"
  by (induction xs arbitrary: acc s) (auto split: prod.splits sum.splits)

lemma evaluate_image_unlabelled:
  "\<not> has_label ds name \<Longrightarrow> evaluate_image p ds name acc s = (Inr acc, s)"
  by (auto simp: has_label_def evaluate_image_def split: option.splits label_file.splits)

lemma score_prediction_fields:
  "score_prediction name pred truth t = Inr r \<Longrightarrow>
     image_name r = name \<and> error r = None \<and> time_seconds r = t"
  by (auto simp: score_prediction_def split: sum.splits)

lemma evaluate_image_labelled:
  assumes "has_label ds name" and "evaluate_image p ds name acc s = (Inr acc', s')"
  shows "\<exists>r. fst acc' = fst acc @ [r] \<and> image_name r = name
           \<and> records_call r (image_path ds name, fst (p s (image_path ds name)))
           \<and> snd acc' = snd acc @ outcome_times (fst (p s (image_path ds name)))
           \<and> s' = snd (p s (image_path ds name))"
  using assms
  by (auto simp: has_label_def evaluate_image_def records_call_def outcome_times_def
        error_prediction_def validate_output_def type_text_def
      split: option.splits label_file.splits prod.splits outcome.splits sum.splits
        pyval.splits truth.splits validity.splits if_splits
      dest: score_prediction_fields)

lemma logged_apply:
  "logged p (s, calls) path = (fst (p s path), (snd (p s path), calls @ [(path, fst (p s path))]))"
  by (simp add: logged_def split: prod.splits)

lemma evaluate_image_logged:
  "evaluate_image (logged p) ds name acc (s, calls) =
     (fst (evaluate_image p ds name acc s),
      (snd (evaluate_image p ds name acc s),
       calls @ (if has_label ds name
                then [(image_path ds name, fst (p s (image_path ds name)))] else [])))"
  by (auto simp: has_label_def evaluate_image_def logged_apply
      split: option.splits label_file.splits prod.splits outcome.splits sum.splits
        validity.splits)



lemma evaluate_images_names:
  "evaluate_images p ds files acc s = (Inr acc', s') \<Longrightarrow>
     \<exists>rs. fst acc' = fst acc @ rs \<and> map image_name rs = filter (has_label ds) files
        \<and> length (snd acc') \<le> length (snd acc) + length rs"
proof (induction files arbitrary: acc s)
  case Nil
  then show ?case by simp
next
  case (Cons name names)
  show ?case
  proof (cases "has_label ds name")
    case False
    with Cons.prems have "evaluate_images p ds names acc s = (Inr acc', s')"
      by (simp add: evaluate_image_unlabelled)
    from Cons.IH [OF this] False show ?thesis by simp
  next
    case True
    from Cons.prems obtain acc1 s1 where
      step: "evaluate_image p ds name acc s = (Inr acc1, s1)"
      and rest: "evaluate_images p ds names acc1 s1 = (Inr acc', s')"
      by (auto split: prod.splits sum.splits)
    from evaluate_image_labelled [OF True step] obtain r where
      r: "fst acc1 = fst acc @ [r]" "image_name r = name"
         "snd acc1 = snd acc @ outcome_times (fst (p s (image_path ds name)))"
      by blast
    have len: "length (outcome_times (fst (p s (image_path ds name)))) \<le> 1"
      by (simp add: outcome_times_def split: outcome.splits pyval.splits truth.splits)
    from Cons.IH [OF rest] obtain rs where
      rs: "fst acc' = fst acc1 @ rs" "map image_name rs = filter (has_label ds) names"
          "length (snd acc') \<le> length (snd acc1) + length rs"
      by blast
    show ?thesis
    proof (intro exI conjI)
      show "fst acc' = fst acc @ (r # rs)" using r rs by simp
      show "map image_name (r # rs) = filter (has_label ds) (name # names)"
        using r rs True by simp
      show "length (snd acc') \<le> length (snd acc) + length (r # rs)"
        using r rs len by simp
    qed
  qed
qed

lemma evaluate_images_logged:
  "evaluate_images (logged p) ds files acc (s, calls) = (Inr acc', (s', calls')) \<Longrightarrow>
     \<exists>new rs. calls' = calls @ new
        \<and> map fst new = map (image_path ds) (filter (has_label ds) files)
        \<and> fst acc' = fst acc @ rs \<and> list_all2 records_call rs new
        \<and> snd acc' = snd acc @ timed_seconds new"
proof (induction files arbitrary: acc s calls)
  case Nil
  then show ?case by (simp add: timed_seconds_def)
next
  case (Cons name names)
  show ?case
  proof (cases "has_label ds name")
    case False
    with Cons.prems have "evaluate_images (logged p) ds names acc (s, calls) = (Inr acc', (s', calls'))"
      by (simp add: evaluate_image_unlabelled)
    from Cons.IH [OF this] False show ?thesis by simp
  next
    case True
    let ?call = "(image_path ds name, fst (p s (image_path ds name)))"
    obtain e1 s1 where ev: "evaluate_image p ds name acc s = (e1, s1)"
      by (cases "evaluate_image p ds name acc s")
    with Cons.prems True obtain acc1 where
      step: "evaluate_image p ds name acc s = (Inr acc1, s1)"
      and rest: "evaluate_images (logged p) ds names acc1 (s1, calls @ [?call]) = (Inr acc', (s', calls'))"
      by (auto simp: evaluate_image_logged split: sum.splits)
    from evaluate_image_labelled [OF True step] obtain r where
      r: "fst acc1 = fst acc @ [r]" "records_call r ?call"
         "snd acc1 = snd acc @ outcome_times (fst (p s (image_path ds name)))"
      by blast
    from Cons.IH [OF rest] obtain new rs where
      n: "calls' = (calls @ [?call]) @ new"
         "map fst new = map (image_path ds) (filter (has_label ds) names)"
         "fst acc' = fst acc1 @ rs" "list_all2 records_call rs new"
         "snd acc' = snd acc1 @ timed_seconds new"
      by blast
    show ?thesis
    proof (intro exI conjI)
      show "calls' = calls @ (?call # new)" using n by simp
      show "map fst (?call # new) = map (image_path ds) (filter (has_label ds) (name # names))"
        using n True by simp
      show "fst acc' = fst acc @ (r # rs)" using r n by simp
      show "list_all2 records_call (r # rs) (?call # new)" using r n by simp
      show "snd acc' = snd acc @ timed_seconds (?call # new)"
        using r n by (simp add: timed_seconds_def)
    qed
  qed
qed

lemma evaluate_images_logged_same:
  "fst (evaluate_images (logged p) ds files acc (s, calls)) = fst (evaluate_images p ds files acc s)
   \<and> fst (snd (evaluate_images (logged p) ds files acc (s, calls)))
       = snd (evaluate_images p ds files acc s)"
proof (induction files arbitrary: acc s calls)
  case Nil
  show ?case by simp
next
  case (Cons name names)
  show ?case
    by (cases "evaluate_image p ds name acc s")
       (auto simp: evaluate_image_logged Cons.IH split: sum.splits)
qed



section \<open>A whole run\<close>

text \<open>The computation of the metrics never raises: no division meets a zero divisor.\<close>

lemma final_metrics_Inr: "final_metrics preds timings = Inr (guarded_metrics preds timings)"
  by (cases preds; cases timings)
     (simp_all add: final_metrics_def guarded_metrics_def true_divide_def Let_def)

lemma evaluate_submission_Inr:
  assumes "evaluate_submission ds p ms s0 = (Inr res, sf)"
  shows "\<exists>preds tms.
           fst (test_prediction p ds (image_files (image_names ds) ms) s0) = None
         \<and> evaluate_images p ds (image_files (image_names ds) ms) ([], [])
             (snd (test_prediction p ds (image_files (image_names ds) ms) s0))
           = (Inr (preds, tms), sf)
         \<and> res = \<lparr>predictions = preds, timing = tms, metrics = guarded_metrics preds tms\<rparr>"
  using assms
  by (auto simp: evaluate_submission_def Let_def final_metrics_Inr
      split: prod.splits sum.splits option.splits)

lemma test_prediction_logged:
  "test_prediction (logged p) ds files (s, calls) =
     (fst (test_prediction p ds files s),
      (snd (test_prediction p ds files s),
       calls @ (case files of [] \<Rightarrow> []
                | f # _ \<Rightarrow> [(image_path ds f, fst (p s (image_path ds f)))])))"
  by (auto simp: test_prediction_def logged_apply split: list.splits prod.splits outcome.splits)

lemma guarded_metrics_total: "total_images (guarded_metrics preds tms) = length preds"
  by (simp add: guarded_metrics_def)

text \<open>Writing the calls down changes neither the result nor the predictor's state.\<close>

lemma evaluate_submission_logged_same:
  "fst (evaluate_submission ds (logged p) ms (s0, calls)) = fst (evaluate_submission ds p ms s0)
   \<and> fst (snd (evaluate_submission ds (logged p) ms (s0, calls)))
       = snd (evaluate_submission ds p ms s0)"
proof -
  let ?files = "image_files (image_names ds) ms"
  obtain c where t: "test_prediction (logged p) ds ?files (s0, calls)
                       = (fst (test_prediction p ds ?files s0),
                          (snd (test_prediction p ds ?files s0), c))"
    by (simp add: test_prediction_logged)
  obtain e s1 where u: "test_prediction p ds ?files s0 = (e, s1)"
    by (cases "test_prediction p ds ?files s0")
  from evaluate_images_logged_same [of p ds ?files "([], [])" s1 c]
  show ?thesis
    by (cases e) (auto simp: evaluate_submission_def Let_def t u split: prod.splits sum.splits)
qed

lemma logged_run:
  assumes "evaluate_submission ds (logged p) ms (s0, []) = (Inr res, (sf, calls))"
  shows "\<exists>new. calls = (case image_files (image_names ds) ms of [] \<Rightarrow> []
                         | f # _ \<Rightarrow> [(image_path ds f, fst (p s0 (image_path ds f)))]) @ new
           \<and> map fst new = map (image_path ds) (filter (has_label ds) (image_files (image_names ds) ms))
           \<and> list_all2 records_call (predictions res) new
           \<and> timing res = timed_seconds new
           \<and> metrics res = guarded_metrics (predictions res) (timing res)"
proof -
  let ?files = "image_files (image_names ds) ms"
  let ?test = "case ?files of [] \<Rightarrow> [] | f # _ \<Rightarrow> [(image_path ds f, fst (p s0 (image_path ds f)))]"
  from evaluate_submission_Inr [OF assms] obtain preds tms where
    loop: "evaluate_images (logged p) ds ?files ([], [])
             (snd (test_prediction (logged p) ds ?files (s0, []))) = (Inr (preds, tms), (sf, calls))"
    and res: "res = \<lparr>predictions = preds, timing = tms, metrics = guarded_metrics preds tms\<rparr>"
    by blast
  from loop have "evaluate_images (logged p) ds ?files ([], [])
      (snd (test_prediction p ds ?files s0), ?test) = (Inr (preds, tms), (sf, calls))"
    by (simp add: test_prediction_logged)
  from evaluate_images_logged [OF this] res show ?thesis by auto
qed

lemma example_run:
  "evaluate_submission example_dataset (logged example_predictor) None (0, [])
     = (Inr example_results, (3, example_calls))"
  by code_simp

section \<open>Aggregation over no samples\<close>

text \<open>
  C7. When a run ends with no entry in \<open>results["predictions"]\<close>, that is with
  \<open>total_images\<close> zero, the accuracy, the average piece accuracy, the average inference time
  and the total time are all zero, as are the two counts: the timing list is then empty
  too. The metrics computed from two empty lists are these zero metrics, and, whatever the
  lists, the computation of the metrics does not raise: each division stands behind a test
  that its divisor is not zero.
\<close>

theorem empty_aggregate_all_zero:
  assumes "evaluate_submission ds p ms s0 = (Inr res, sf)"
    and "total_images (metrics res) = 0"
  shows "metrics res = empty_metrics
       \<and> final_metrics [] [] = Inr empty_metrics
       \<and> final_metrics entries seconds = Inr (guarded_metrics entries seconds)"
proof -
  from evaluate_submission_Inr [OF assms(1)] obtain preds tms where
    loop: "evaluate_images p ds (image_files (image_names ds) ms) ([], [])
             (snd (test_prediction p ds (image_files (image_names ds) ms) s0))
           = (Inr (preds, tms), sf)"
    and res: "res = \<lparr>predictions = preds, timing = tms, metrics = guarded_metrics preds tms\<rparr>"
    by blast
  have empty: "guarded_metrics [] [] = empty_metrics"
    by (simp add: guarded_metrics_def empty_metrics_def)
  from assms(2) res have "preds = []" by (simp add: guarded_metrics_total)
  moreover from evaluate_images_names [OF loop] have "length tms \<le> length preds" by auto
  ultimately have "preds = [] \<and> tms = []" by simp
  with res empty have "metrics res = empty_metrics" by simp
  moreover have "final_metrics [] [] = Inr empty_metrics"
    by (simp add: final_metrics_Inr empty)
  moreover have "final_metrics entries seconds = Inr (guarded_metrics entries seconds)"
    by (rule final_metrics_Inr)
  ultimately show ?thesis by simp
qed

theorem empty_aggregate_all_zero_witness:
  "evaluate_submission empty_dataset example_predictor None 0 = (Inr empty_results, 0)
   \<and> total_images (metrics empty_results) = 0
   \<and> metrics empty_results = empty_metrics
   \<and> final_metrics [] [] = Inr empty_metrics"
proof -
  have run: "evaluate_submission empty_dataset example_predictor None 0 = (Inr empty_results, 0)"
    by code_simp
  have zero: "total_images (metrics empty_results) = 0"
    by (simp add: empty_results_def empty_metrics_def)
  from empty_aggregate_all_zero [OF run zero, of "[]" "[]"] run zero show ?thesis by simp
qed

section \<open>How often the predictor is called\<close>

text \<open>
  C3, as the claim states it, fails: on a dataset of one labelled image the run records one
  sample and calls the predictor twice, first in the test call of lines 124 to 131 and
  then in the loop.
\<close>

theorem one_call_per_sample_counterexample:
  "evaluate_submission single_dataset (logged empty_board_predictor) None ((), [])
     = (Inr single_results,
        ((), [(''data/images/a.png'', Returned (PStr ''8/8/8/8/8/8/8/8'') 2),
              (''data/images/a.png'', Returned (PStr ''8/8/8/8/8/8/8/8'') 2)]))
   \<and> total_images (metrics single_results) = 1"
  by code_simp

text \<open>
  C3, amended. In a run that returns, the predictor is called once on the first image
  file, if there is one, and then once on each image file that has a label, in the order
  of the files: the number of calls is the number of recorded samples, plus one when there
  is an image file.
\<close>

theorem predictor_calls_counted:
  assumes "evaluate_submission ds (logged p) ms (s0, []) = (Inr res, (sf, calls))"
  shows "map fst calls =
           map (image_path ds)
             (take 1 (image_files (image_names ds) ms)
              @ filter (has_label ds) (image_files (image_names ds) ms))
         \<and> length calls =
             (if image_files (image_names ds) ms = [] then 0 else 1) + total_images (metrics res)"
proof -
  from logged_run [OF assms] obtain new where
    n: "calls = (case image_files (image_names ds) ms of [] \<Rightarrow> []
                 | f # _ \<Rightarrow> [(image_path ds f, fst (p s0 (image_path ds f)))]) @ new"
       "map fst new = map (image_path ds) (filter (has_label ds) (image_files (image_names ds) ms))"
       "list_all2 records_call (predictions res) new"
       "metrics res = guarded_metrics (predictions res) (timing res)"
    by blast
  from n(3) have "length new = length (predictions res)" by (simp add: list_all2_lengthD)
  with n show ?thesis
    by (cases "image_files (image_names ds) ms") (simp_all add: guarded_metrics_total)
qed

theorem predictor_calls_counted_witness:
  "evaluate_submission example_dataset (logged example_predictor) None (0, [])
     = (Inr example_results, (3, example_calls))
   \<and> length example_calls = 1 + total_images (metrics example_results)"
proof -
  have run: "evaluate_submission example_dataset (logged example_predictor) None (0, [])
     = (Inr example_results, (3, example_calls))"
    by (rule example_run)
  have files: "image_files (image_names example_dataset) None \<noteq> []"
    by code_simp
  from predictor_calls_counted [OF run] run files show ?thesis by simp
qed


section \<open>Samples whose prediction fails\<close>


lemma failing_run_plain:
  "evaluate_submission failing_dataset failing_predictor None 0 = (Inr failing_results, 6)"
  by code_simp

lemma evaluate_images_extends:
  "evaluate_images p ds files acc s = (Inr acc', s') \<Longrightarrow> \<exists>rs. fst acc' = fst acc @ rs"
  by (drule evaluate_images_names) blast

lemma failure_entry_fields:
  "failure_entry name out = Some r \<Longrightarrow>
     image_name r = name \<and> error r \<noteq> None \<and> \<not> correct r \<and> piece_accuracy r = 0"
  by (auto simp: failure_entry_def error_prediction_def
      split: outcome.splits pyval.splits truth.splits if_splits)

lemma failed_outcome_entry: "failed_outcome out \<Longrightarrow> \<exists>r. failure_entry name out = Some r"
  by (auto simp: failed_outcome_def non_string_or_empty_def failure_entry_def
      split: outcome.splits pyval.splits truth.splits)

lemma evaluate_image_failed:
  assumes "label_files ds (label_name name) = Some (LabelText txt)"
    and "failure_entry name (fst (p s (image_path ds name))) = Some r"
  shows "evaluate_image p ds name acc s =
           (Inr (fst acc @ [r], snd acc @ outcome_times (fst (p s (image_path ds name)))),
            snd (p s (image_path ds name)))"
  using assms
  by (cases "p s (image_path ds name)")
     (auto simp: evaluate_image_def failure_entry_def outcome_times_def validate_output_def
        type_text_def
      split: outcome.splits pyval.splits truth.splits if_splits)

text \<open>
  C2, as the claim states it, fails: a raise does abort the batch when the exception is not
  derived from \<open>Exception\<close>. The predictor below leaves the interpreter on \<open>b.png\<close>, a
  labelled sample; the \<open>except Exception\<close> of line 167 does not catch that, and the run
  ends with the exception and without results, the entry of \<open>a.png\<close> included.
\<close>

theorem failed_sample_aborts_counterexample:
  "label_files example_dataset (label_name ''b.png'') = Some (LabelText ''8/8/8/8/8/8/8/8 w - - 0 1'')
   \<and> fst (exiting_predictor 2 (image_path example_dataset ''b.png'')) = RaisedBase ''SystemExit''
   \<and> evaluate_submission example_dataset exiting_predictor None 0
       = (Inl (BaseException ''SystemExit''), 3)"
  by code_simp

text \<open>
  C2, amended. Let a sample of the run have a label, and let the predictor, in the state in
  which the loop reaches the sample, raise an exception derived from \<open>Exception\<close>, or
  return a value that is not a string or is the empty string. Then the turn of the loop
  does not fail: it appends the failure entry of that sample, whose \<open>error\<close> is set, whose
  \<open>correct\<close> is false and whose \<open>piece_accuracy\<close> is zero, and the loop goes on with the
  remaining samples. In every run that returns, the entry is in the predictions at the
  sample's position and is counted in \<open>total_images\<close>.
\<close>

theorem failed_sample_recorded:
  assumes files: "image_files (image_names ds) ms = pre @ name # rest"
    and reached: "evaluate_images p ds pre ([], [])
                    (snd (test_prediction p ds (pre @ name # rest) s0)) = (Inr acc, s)"
    and label: "label_files ds (label_name name) = Some (LabelText txt)"
    and fails: "failed_outcome (fst (p s (image_path ds name)))"
  shows "\<exists>r. failure_entry name (fst (p s (image_path ds name))) = Some r
       \<and> image_name r = name
       \<and> error r \<noteq> None
       \<and> \<not> correct r
       \<and> piece_accuracy r = 0
       \<and> evaluate_image p ds name acc s =
           (Inr (fst acc @ [r], snd acc @ outcome_times (fst (p s (image_path ds name)))),
            snd (p s (image_path ds name)))
       \<and> evaluate_images p ds (pre @ name # rest) ([], [])
             (snd (test_prediction p ds (pre @ name # rest) s0))
           = evaluate_images p ds rest
               (fst acc @ [r], snd acc @ outcome_times (fst (p s (image_path ds name))))
               (snd (p s (image_path ds name)))
       \<and> (\<forall>res sf. evaluate_submission ds p ms s0 = (Inr res, sf) \<longrightarrow>
            length (fst acc) < total_images (metrics res)
            \<and> predictions res ! length (fst acc) = r)"
proof -
  let ?out = "fst (p s (image_path ds name))"
  from failed_outcome_entry [OF fails] obtain r where r: "failure_entry name ?out = Some r"
    by blast
  let ?acc1 = "(fst acc @ [r], snd acc @ outcome_times ?out)"
  let ?s1 = "snd (p s (image_path ds name))"
  let ?st = "snd (test_prediction p ds (pre @ name # rest) s0)"
  have step: "evaluate_image p ds name acc s = (Inr ?acc1, ?s1)"
    using label r by (rule evaluate_image_failed)
  have loop: "evaluate_images p ds (pre @ name # rest) ([], []) ?st
                = evaluate_images p ds rest ?acc1 ?s1"
    by (simp add: evaluate_images_append reached step)
  have run: "length (fst acc) < total_images (metrics res) \<and> predictions res ! length (fst acc) = r"
    if e: "evaluate_submission ds p ms s0 = (Inr res, sf)" for res sf
  proof -
    from evaluate_submission_Inr [OF e] obtain preds tms where
      l: "evaluate_images p ds (pre @ name # rest) ([], []) ?st = (Inr (preds, tms), sf)"
      and res: "res = \<lparr>predictions = preds, timing = tms, metrics = guarded_metrics preds tms\<rparr>"
      by (auto simp: files)
    from l loop have "evaluate_images p ds rest ?acc1 ?s1 = (Inr (preds, tms), sf)" by simp
    from evaluate_images_extends [OF this] obtain rs where "preds = (fst acc @ [r]) @ rs"
      by auto
    with res show ?thesis by (simp add: guarded_metrics_total nth_append)
  qed
  from failure_entry_fields [OF r] r step loop run show ?thesis by blast
qed

theorem failed_sample_recorded_witness:
  "evaluate_submission failing_dataset failing_predictor None 0 = (Inr failing_results, 6)
   \<and> failed_outcome (Raised ''boom'')
   \<and> failed_outcome (Returned (PStr []) 1)
   \<and> failed_outcome (Returned (PNonStr ''<class 'NoneType'>'' Falsy) 1)
   \<and> failed_outcome (Returned array_value 3)
   \<and> predictions failing_results ! 0 = error_prediction ''a.png'' ''boom'' 0
   \<and> predictions failing_results ! 1
       = error_prediction ''b.png'' ''Invalid output type: <class 'str'>'' 1
   \<and> predictions failing_results ! 2
       = error_prediction ''c.png'' ''Invalid output type: <class 'NoneType'>'' 1
   \<and> predictions failing_results ! 3
       = error_prediction ''d.png'' ''The truth value is ambiguous'' 0
   \<and> total_images (metrics failing_results) = 5"
proof -
  let ?p = failing_predictor and ?ds = failing_dataset
  have label: "label_files ?ds (label_name n) = Some (LabelText ''8/8/8/8/8/8/8/8'')" for n
    by (simp add: failing_dataset_def)
  have f0: "image_files (image_names ?ds) None
              = [] @ ''a.png'' # [''b.png'', ''c.png'', ''d.png'', ''e.png'']"
    and f1: "image_files (image_names ?ds) None
              = [''a.png''] @ ''b.png'' # [''c.png'', ''d.png'', ''e.png'']"
    and f2: "image_files (image_names ?ds) None
              = [''a.png'', ''b.png''] @ ''c.png'' # [''d.png'', ''e.png'']"
    and f3: "image_files (image_names ?ds) None
              = [''a.png'', ''b.png'', ''c.png''] @ ''d.png'' # [''e.png'']"
    by code_simp+
  have r0: "evaluate_images ?p ?ds [] ([], [])
              (snd (test_prediction ?p ?ds ([] @ ''a.png'' # [''b.png'', ''c.png'', ''d.png'', ''e.png'']) 0))
            = (Inr ([], []), 1)"
    by code_simp
  have r1: "evaluate_images ?p ?ds [''a.png''] ([], [])
              (snd (test_prediction ?p ?ds ([''a.png''] @ ''b.png'' # [''c.png'', ''d.png'', ''e.png'']) 0))
            = (Inr (take 1 failing_entries, []), 2)"
    by code_simp
  have r2: "evaluate_images ?p ?ds [''a.png'', ''b.png''] ([], [])
              (snd (test_prediction ?p ?ds ([''a.png'', ''b.png''] @ ''c.png'' # [''d.png'', ''e.png'']) 0))
            = (Inr (take 2 failing_entries, [1]), 3)"
    by code_simp
  have r3: "evaluate_images ?p ?ds [''a.png'', ''b.png'', ''c.png''] ([], [])
              (snd (test_prediction ?p ?ds ([''a.png'', ''b.png'', ''c.png''] @ ''d.png'' # [''e.png'']) 0))
            = (Inr (take 3 failing_entries, [1, 1]), 4)"
    by code_simp
  have o0: "fst (?p 1 (image_path ?ds ''a.png'')) = Raised ''boom''"
    and o1: "fst (?p 2 (image_path ?ds ''b.png'')) = Returned (PStr []) 1"
    and o2: "fst (?p 3 (image_path ?ds ''c.png'')) = Returned (PNonStr ''<class 'NoneType'>'' Falsy) 1"
    and o3: "fst (?p 4 (image_path ?ds ''d.png'')) = Returned array_value 3"
    by code_simp+
  have h0: "failed_outcome (Raised ''boom'')"
    and h1: "failed_outcome (Returned (PStr []) 1)"
    and h2: "failed_outcome (Returned (PNonStr ''<class 'NoneType'>'' Falsy) 1)"
    and h3: "failed_outcome (Returned array_value 3)"
    by code_simp+
  have e0: "failure_entry ''a.png'' (Raised ''boom'') = Some (error_prediction ''a.png'' ''boom'' 0)"
    and e1: "failure_entry ''b.png'' (Returned (PStr []) 1)
               = Some (error_prediction ''b.png'' ''Invalid output type: <class 'str'>'' 1)"
    and e2: "failure_entry ''c.png'' (Returned (PNonStr ''<class 'NoneType'>'' Falsy) 1)
               = Some (error_prediction ''c.png'' ''Invalid output type: <class 'NoneType'>'' 1)"
    and e3: "failure_entry ''d.png'' (Returned array_value 3)
               = Some (error_prediction ''d.png'' ''The truth value is ambiguous'' 0)"
    by code_simp+
  have len: "length (take 1 failing_entries) = 1" "length (take 2 failing_entries) = 2"
    "length (take 3 failing_entries) = 3"
    by code_simp+
  have total: "total_images (metrics failing_results) = 5"
    by code_simp
  from failed_sample_recorded [OF f0 r0 label] h0 o0 e0 failing_run_plain
  have p0: "predictions failing_results ! 0 = error_prediction ''a.png'' ''boom'' 0"
    by auto
  from failed_sample_recorded [OF f1 r1 label] h1 o1 e1 len failing_run_plain
  have p1: "predictions failing_results ! 1
              = error_prediction ''b.png'' ''Invalid output type: <class 'str'>'' 1"
    by auto
  from failed_sample_recorded [OF f2 r2 label] h2 o2 e2 len failing_run_plain
  have p2: "predictions failing_results ! 2
              = error_prediction ''c.png'' ''Invalid output type: <class 'NoneType'>'' 1"
    by auto
  from failed_sample_recorded [OF f3 r3 label] h3 o3 e3 len failing_run_plain
  have p3: "predictions failing_results ! 3
              = error_prediction ''d.png'' ''The truth value is ambiguous'' 0"
    by auto
  from failing_run_plain h0 h1 h2 h3 p0 p1 p2 p3 total show ?thesis by simp
qed

section \<open>Samples without a label\<close>





section \<open>Timing of samples whose prediction raises\<close>







section \<open>Truncation by \<open>max_samples\<close>\<close>

text \<open>A positive \<open>max_samples\<close> keeps the first files in sorted order; zero keeps all.\<close>

lemma image_files_positive:
  "0 < n \<Longrightarrow> image_files names (Some n) = take (nat n) (image_files names None)"
  by (simp add: image_files_def slice_to_def Let_def)

lemma image_files_zero: "image_files names (Some 0) = image_files names None"
  by (simp add: image_files_def)

text \<open>
  C4, at \<open>max_samples = 0\<close>: the test \<open>if max_samples:\<close> fails for zero, so no file is
  dropped and the three image files are all processed, where the claim has none.
\<close>

theorem max_samples_zero_evaluates_all:
  "image_files (image_names example_dataset) (Some 0) = [''a.png'', ''b.png'', ''c.png'']
   \<and> evaluate_submission example_dataset example_predictor (Some 0) 0 = (Inr example_results, 3)
   \<and> total_images (metrics example_results) = 2"
  by code_simp



section \<open>Completion writes of the job storage\<close>

lemma set_fields_present:
  assumes "job_record srv jid = Some r"
  shows "job_after jid (set_fields jid f srv) = Inr (Some (f r))"
  using assms
  by (auto simp: job_after_def set_fields_def job_record_def split: option.splits)

lemma set_fields_absent:
  assumes "job_record srv jid = None"
  shows "set_fields jid f srv = Inl KeyError"
  using assms
  by (auto simp: set_fields_def job_record_def split: option.splits)

text \<open>
  C1, as the claim states it, fails. The storage has no test of the status before a
  write. In the task below the evaluation succeeds and the job is recorded as completed;
  then the removal of the temporary directory raises, the handler of lines 278 to 286
  writes the failure, and that second write succeeds: the status becomes \<open>failed\<close>, the
  error is set beside the results, and \<open>completed_at\<close> is rewritten.
\<close>

theorem second_completion_counterexample:
  "job_record completed_server ''job-1'' = Some completed_job
   \<and> status completed_job = Completed
   \<and> job_after ''job-1'' (mark_failed ''job-1'' ''Permission denied'' ''t3'' completed_server)
       = Inr (Some (completed_job\<lparr>status := Failed, job_error := Some ''Permission denied'',
                                  completed_at := Some ''t3''\<rparr>))
   \<and> job_record (snd (try_block example_env ''job-1'' example_request queued_server)) ''job-1''
       = Some completed_job
   \<and> fst (try_block example_env ''job-1'' example_request queued_server)
       = Inl ''Permission denied''
   \<and> fst (process_evaluation example_env ''job-1'' example_request queued_server) = Inr ()
   \<and> job_record (snd (process_evaluation example_env ''job-1'' example_request queued_server)) ''job-1''
       = Some (completed_job\<lparr>status := Failed, job_error := Some ''Permission denied'',
                             completed_at := Some ''t3''\<rparr>)"
  by code_simp

text \<open>
  C1, amended. A completion write for a job id that the storage holds succeeds whatever
  the record's status, a terminal one included: the write of a failure sets the status to
  \<open>failed\<close>, the error and \<open>completed_at\<close>, the write of a completion sets the status to
  \<open>completed\<close>, the results and \<open>completed_at\<close>, and every other field keeps its value.
\<close>

theorem completion_write_unguarded:
  assumes "job_record srv jid = Some r"
  shows "job_after jid (mark_failed jid msg now srv)
           = Inr (Some (r\<lparr>status := Failed, job_error := Some msg, completed_at := Some now\<rparr>))
       \<and> job_after jid (mark_completed jid summary now srv)
           = Inr (Some (r\<lparr>status := Completed, job_results := Some summary,
                          completed_at := Some now\<rparr>))"
  using assms by (simp add: mark_failed_def mark_completed_def set_fields_present)

theorem completion_write_unguarded_witness:
  "job_record completed_server ''job-1'' = Some completed_job
   \<and> job_after ''job-1'' (mark_failed ''job-1'' ''late'' ''t9'' completed_server)
       = Inr (Some (completed_job\<lparr>status := Failed, job_error := Some ''late'',
                                  completed_at := Some ''t9''\<rparr>))"
proof -
  have present: "job_record completed_server ''job-1'' = Some completed_job"
    by code_simp
  from completion_write_unguarded [OF present, of "''late''" "''t9''"] present
  show ?thesis by simp
qed


section \<open>Timeout of the evaluation script\<close>

text \<open>
  C6. The evaluation script is run as one process with a timeout of 900 seconds for the
  whole batch. When that call raises \<open>TimeoutExpired\<close>, \<open>run_evaluation\<close> returns an error
  result that names the timeout and holds neither results nor an evaluation time, in
  api_server.py and in handler.py alike: the result file is not read.
\<close>

theorem timeout_discards_results:
  assumes "subprocess_run env (eval_command env submission_dir test_dataset_path quick) 900
             = TimeoutExpired"
  shows "run_evaluation env submission_dir test_dataset_path quick
           = \<lparr>eval_status = ''error'', eval_results = None, eval_time = None,
              eval_error = Some ''Evaluation timed out after 15 minutes'', eval_details = None\<rparr>
       \<and> handler_run_evaluation env submission_dir test_dataset_path quick
           = \<lparr>eval_status = ''error'', eval_results = None, eval_time = None,
              eval_error = Some ''Evaluation timed out (>15 minutes)'', eval_details = None\<rparr>"
  using assms by (simp add: run_evaluation_def handler_run_evaluation_def error_result_def)

theorem timeout_discards_results_witness:
  "subprocess_run (evaluation timeout_env)
      (eval_command (evaluation timeout_env) ''/tmp/tmp1/submission'' ''/workspace/dataset_test'' False)
      900 = TimeoutExpired
   \<and> eval_results (run_evaluation (evaluation timeout_env) ''/tmp/tmp1/submission''
                     ''/workspace/dataset_test'' False) = None
   \<and> eval_error (run_evaluation (evaluation timeout_env) ''/tmp/tmp1/submission''
                     ''/workspace/dataset_test'' False)
       = Some ''Evaluation timed out after 15 minutes''
   \<and> eval_results (handler_run_evaluation (evaluation timeout_env) ''/tmp/tmp1/submission''
                     ''/workspace/dataset_test'' False) = None"
proof -
  have t: "subprocess_run (evaluation timeout_env)
      (eval_command (evaluation timeout_env) ''/tmp/tmp1/submission'' ''/workspace/dataset_test'' False)
      900 = TimeoutExpired"
    by (simp add: timeout_env_def example_env_def example_eval_env_def)
  from timeout_discards_results [OF t] t show ?thesis by simp
qed

lemma set_fields_Inr:
  assumes "job_record srv jid = Some r"
  shows "\<exists>srv'. set_fields jid f srv = Inr srv' \<and> job_record srv' jid = Some (f r)"
  using assms
  by (auto simp: set_fields_def job_record_def split: option.splits)

text \<open>The job of a run that times out, when the steps before the evaluation succeed.\<close>

lemma timeout_fails_job:
  assumes job: "job_record srv jid = Some r"
    and dataset: "ensure_test_dataset env = Inr path"
    and prepared: "download env = None" "extract_tarball env = None" "has_predict_py env"
      "(if has_requirements env then pip_install env else None) = None"
    and timeout: "subprocess_run (evaluation env)
            (eval_command (evaluation env) (temp_dir env @ ''/submission'') path (quick_test request))
            900 = TimeoutExpired"
  shows "fst (process_evaluation env jid request srv) = Inr ()
       \<and> (\<exists>r'. job_record (snd (process_evaluation env jid request srv)) jid = Some r'
               \<and> status r' = Failed \<and> job_results r' = job_results r
               \<and> job_error r' = Some (case cleanup env of
                                        None \<Rightarrow> ''Evaluation timed out after 15 minutes''
                                      | Some msg \<Rightarrow> msg))"
proof -
  from set_fields_Inr [OF job] obtain srv1 where
    s1: "mark_processing jid (now_started env) srv = Inr srv1"
    and j1: "job_record srv1 jid = Some (r\<lparr>status := Processing, started_at := Some (now_started env)\<rparr>)"
    unfolding mark_processing_def by blast
  from set_fields_Inr [OF j1] obtain srv2 where
    s2: "mark_failed jid ''Evaluation timed out after 15 minutes'' (now_finished env) srv1 = Inr srv2"
    and j2: "job_record srv2 jid =
               Some (r\<lparr>status := Processing, started_at := Some (now_started env),
                       status := Failed,
                       job_error := Some ''Evaluation timed out after 15 minutes'',
                       completed_at := Some (now_finished env)\<rparr>)"
    unfolding mark_failed_def by blast
  from timeout have run: "run_evaluation (evaluation env) (temp_dir env @ ''/submission'') path
                            (quick_test request)
                          = error_result ''Evaluation timed out after 15 minutes'' None"
    by (simp add: run_evaluation_def)
  have body: "evaluate_in_temp_dir env jid request path srv1 = (Inr (), srv2)"
    using prepared run s2
    by (simp add: evaluate_in_temp_dir_def error_result_def Let_def)
  show ?thesis
  proof (cases "cleanup env")
    case None
    with s1 dataset body have "process_evaluation env jid request srv = (Inr (), srv2)"
      by (simp add: process_evaluation_def try_block_def)
    with j2 None show ?thesis by simp
  next
    case (Some msg)
    from set_fields_Inr [OF j2] obtain srv3 where
      s3: "mark_failed jid msg (now_except env) srv2 = Inr srv3"
      and j3: "job_record srv3 jid =
                 Some (r\<lparr>status := Processing, started_at := Some (now_started env),
                         status := Failed,
                         job_error := Some ''Evaluation timed out after 15 minutes'',
                         completed_at := Some (now_finished env),
                         status := Failed, job_error := Some msg,
                         completed_at := Some (now_except env)\<rparr>)"
      unfolding mark_failed_def by blast
    from s1 dataset body Some s3 have "process_evaluation env jid request srv = (Inr (), srv3)"
      by (simp add: process_evaluation_def try_block_def)
    with j3 Some show ?thesis by simp
  qed
qed

section \<open>Records handed to callers\<close>

text \<open>
  C8, for \<open>list_jobs\<close>: the list it returns holds the address of the stored record
  itself, so the write that starts the processing changes the record that the caller was
  given, from \<open>queued\<close> to \<open>processing\<close>.
\<close>

theorem list_jobs_returns_live_records:
  "list_jobs queued_server = (1, [0])
   \<and> heap queued_server 0 = Some queued_job
   \<and> object_after 0 (mark_processing ''job-1'' ''t1'' queued_server)
       = Inr (Some (queued_job\<lparr>status := Processing, started_at := Some ''t1''\<rparr>))"
  by code_simp

lemma map_of_registry_ok:
  "registry_ok srv \<Longrightarrow> map_of (jobs srv) jid = Some a \<Longrightarrow> a < next_addr srv"
proof -
  assume ok: "registry_ok srv" and m: "map_of (jobs srv) jid = Some a"
  from m have "(jid, a) \<in> set (jobs srv)" by (rule map_of_SomeD)
  with ok have "snd (jid, a) < next_addr srv"
    unfolding registry_ok_def list_all_iff by blast
  then show ?thesis by simp
qed

text \<open>The copy that \<open>get_job_status\<close> returns is a new object with the fields of the
  record, and no later write, deletion or submission changes it.\<close>

lemma get_job_status_copy_stable:
  assumes ok: "registry_ok srv" and get: "get_job_status jid srv = (Inr b, srv1)"
  shows "heap srv1 b = job_record srv jid"
    and "set_fields jid' f srv1 = Inr srv2 \<Longrightarrow> heap srv2 b = heap srv1 b"
    and "delete_job jid' srv1 = Inr srv3 \<Longrightarrow> heap srv3 b = heap srv1 b"
    and "heap (submit_evaluation jid' now request srv1) b = heap srv1 b"
proof -
  from get obtain a where a: "map_of (jobs srv) jid = Some a"
    and b: "b = next_addr srv"
    and srv1: "srv1 = srv\<lparr>heap := (heap srv)(b := heap srv a), next_addr := Suc b\<rparr>"
    by (auto simp: get_job_status_def Let_def split: option.splits)
  from a srv1 show "heap srv1 b = job_record srv jid"
    by (simp add: job_record_def)
  show "heap srv2 b = heap srv1 b" if upd: "set_fields jid' f srv1 = Inr srv2"
  proof -
    from upd obtain a' where a': "map_of (jobs srv1) jid' = Some a'"
      and srv2: "\<exists>r. srv2 = srv1\<lparr>heap := (heap srv1)(a' \<mapsto> r)\<rparr>"
      by (auto simp: set_fields_def split: option.splits)
    from a' srv1 have "map_of (jobs srv) jid' = Some a'" by simp
    with ok have "a' < next_addr srv" by (rule map_of_registry_ok)
    with b have "a' \<noteq> b" by simp
    with srv2 show ?thesis by auto
  qed
  show "heap srv3 b = heap srv1 b" if "delete_job jid' srv1 = Inr srv3"
    using that by (auto simp: delete_job_def split: option.splits)
  show "heap (submit_evaluation jid' now request srv1) b = heap srv1 b"
    using srv1 by (simp add: submit_evaluation_def Let_def)
qed



lemma list_all_update:
  "P (k, v) \<Longrightarrow> list_all P al \<Longrightarrow> list_all P (AList.update k v al)"
  by (induction al) auto

lemma list_all_delete: "list_all P al \<Longrightarrow> list_all P (AList.delete k al)"
  by (induction al) auto

text \<open>Every storage that the operations reach from the empty one is in order.\<close>

lemma registry_ok_empty: "registry_ok empty_server"
  by (simp add: registry_ok_def empty_server_def)

lemma registry_ok_submit:
  assumes "registry_ok srv"
  shows "registry_ok (submit_evaluation jid now request srv)"
proof -
  from assms have "list_all (\<lambda>entry. snd entry < Suc (next_addr srv)) (jobs srv)"
    unfolding registry_ok_def list_all_iff by auto
  then have "list_all (\<lambda>entry. snd entry < Suc (next_addr srv))
               (AList.update jid (next_addr srv) (jobs srv))"
    by (intro list_all_update) simp_all
  then show ?thesis by (simp add: registry_ok_def submit_evaluation_def Let_def)
qed

lemma registry_ok_set_fields:
  "registry_ok srv \<Longrightarrow> set_fields jid f srv = Inr srv' \<Longrightarrow> registry_ok srv'"
  by (auto simp: registry_ok_def set_fields_def split: option.splits)

lemma registry_ok_get_job_status:
  assumes "registry_ok srv" and "get_job_status jid srv = (r, srv')"
  shows "registry_ok srv'"
proof (cases "map_of (jobs srv) jid")
  case None
  with assms show ?thesis by (simp add: get_job_status_def)
next
  case (Some a)
  with assms(2) have "jobs srv' = jobs srv" and "next_addr srv' = Suc (next_addr srv)"
    by (auto simp: get_job_status_def Let_def)
  with assms(1) show ?thesis unfolding registry_ok_def list_all_iff by auto
qed

lemma registry_ok_delete_job:
  "registry_ok srv \<Longrightarrow> delete_job jid srv = Inr srv' \<Longrightarrow> registry_ok srv'"
  by (auto simp: registry_ok_def delete_job_def list_all_delete split: option.splits)

section \<open>Expanding a position to its squares\<close>




lemma digit_char_facts:
  assumes "0 < n" and "n \<le> 9"
  shows "isdigit (digit_char n)" and "int_of_char (digit_char n) = Inr n"
    and "digit_char n \<noteq> CHR ''/''"
proof -
  from assms have code: "of_char (digit_char n) = 48 + n"
    by (simp add: digit_char_def)
  from code assms show "isdigit (digit_char n)" by (simp add: isdigit_def)
  from code assms show "int_of_char (digit_char n) = Inr n" by (simp add: int_of_char_def)
  have "(of_char (digit_char n) :: nat) \<noteq> of_char CHR ''/''"
    using code assms by simp
  then show "digit_char n \<noteq> CHR ''/''" by auto
qed



lemma board_symbol_cases:
  assumes "board_symbol s" and "s \<noteq> ''.''"
  obtains c where "s = [c]" and "\<not> isdigit c" and "c \<noteq> CHR ''/''"
  using assms by (auto simp: board_symbol_def split: list.splits)


lemma flush_run_no_separator: "n \<le> 9 \<Longrightarrow> CHR ''/'' \<notin> set (flush_run n)"
  using digit_char_facts(3) [of n] by (cases "n = 0") (auto simp: flush_run_def)

lemma build_rank_no_separator:
  "n + length ss \<le> 9 \<Longrightarrow> list_all board_symbol ss \<Longrightarrow> CHR ''/'' \<notin> set (build_rank n ss)"
proof (induction ss arbitrary: n)
  case Nil
  then show ?case by (simp add: flush_run_no_separator)
next
  case (Cons s ss)
  from Cons.prems have rest: "list_all board_symbol ss" and sym: "board_symbol s" by simp_all
  show ?case
  proof (cases "s = ''.''")
    case True
    from Cons.prems have "Suc n + length ss \<le> 9" by simp
    from Cons.IH [OF this rest] True show ?thesis by simp
  next
    case False
    from board_symbol_cases [OF sym False] obtain c where
      c: "s = [c]" "\<not> isdigit c" "c \<noteq> CHR ''/''" by blast
    from Cons.prems have n: "n \<le> 9" and l: "0 + length ss \<le> 9" by simp_all
    from n have "CHR ''/'' \<notin> set (flush_run n)" by (rule flush_run_no_separator)
    with Cons.IH [OF l rest] False c show ?thesis by simp
  qed
qed

lemma split_on_no_separator: "sep \<notin> set r \<Longrightarrow> split_on sep r = [r]"
  by (induction r) auto

lemma split_on_field:
  "sep \<notin> set r \<Longrightarrow> split_on sep (r @ sep # rest) = r # split_on sep rest"
  by (induction r) auto

lemma split_join_ranks:
  "rs \<noteq> [] \<Longrightarrow> \<forall>r \<in> set rs. CHR ''/'' \<notin> set r \<Longrightarrow> split_on CHR ''/'' (join_ranks rs) = rs"
proof (induction rs rule: join_ranks.induct)
  case 1
  then show ?case by simp
next
  case (2 r)
  then show ?case by (simp add: split_on_no_separator)
next
  case (3 r r' rs)
  then show ?case by (simp add: split_on_field)
qed




lemma board_ranks_symbols:
  assumes "known_board board"
  shows "\<forall>rk \<in> set (board_ranks board). length rk \<le> 8 \<and> list_all board_symbol rk"
proof
  fix rk assume "rk \<in> set (board_ranks board)"
  then obtain i where rk: "rk = take 8 (drop (8 * i) board)"
    by (auto simp: board_ranks_def)
  from assms have "list_all board_symbol board" by (simp add: known_board_def)
  then have "list_all board_symbol rk"
    unfolding rk list_all_iff by (meson in_set_dropD in_set_takeD)
  with rk show "length rk \<le> 8 \<and> list_all board_symbol rk" by simp
qed


lemma rank_width_build_rank:
  "n + length ss \<le> 9 \<Longrightarrow> list_all board_symbol ss \<Longrightarrow>
     rank_width (build_rank n ss) = Some (n + length ss)"
proof (induction ss arbitrary: n)
  case Nil
  then show ?case by (cases "n = 0") (simp_all add: flush_run_def digit_char_facts)
next
  case (Cons s ss)
  from Cons.prems have rest: "list_all board_symbol ss" and sym: "board_symbol s" by simp_all
  show ?case
  proof (cases "s = ''.''")
    case True
    from Cons.prems have "Suc n + length ss \<le> 9" by simp
    from Cons.IH [OF this rest] True show ?thesis by simp
  next
    case False
    from board_symbol_cases [OF sym False] obtain c where
      c: "s = [c]" "\<not> isdigit c" "c \<noteq> CHR ''/''" by blast
    from Cons.prems have n: "n \<le> 9" and l: "0 + length ss \<le> 9" by simp_all
    from Cons.IH [OF l rest] False c n show ?thesis
      by (cases "n = 0") (simp_all add: flush_run_def digit_char_facts)
  qed
qed

text \<open>The string built from a board of 64 symbols is well formed.\<close>

lemma board_to_fen_well_formed:
  assumes "known_board board"
  shows "well_formed (board_to_fen board)"
proof -
  let ?ranks = "map (build_rank 0) (board_ranks board)"
  from assms have len: "length board = 64" and syms: "list_all board_symbol board"
    by (simp_all add: known_board_def)
  have sym: "\<forall>rk \<in> set (board_ranks board). length rk \<le> 8 \<and> list_all board_symbol rk"
    using assms by (rule board_ranks_symbols)
  have full: "\<forall>rk \<in> set (board_ranks board). length rk = 8"
    using len by (auto simp: board_ranks_def)
  have nonempty: "?ranks \<noteq> []" by (simp add: board_ranks_def)
  have "\<forall>r \<in> set ?ranks. CHR ''/'' \<notin> set r"
  proof
    fix r assume "r \<in> set ?ranks"
    then obtain rk where rk: "rk \<in> set (board_ranks board)" and r: "r = build_rank 0 rk" by auto
    from sym rk have "length rk \<le> 8" and "list_all board_symbol rk" by blast+
    then have "0 + length rk \<le> 9" and "list_all board_symbol rk" by simp_all
    then show "CHR ''/'' \<notin> set r" unfolding r by (rule build_rank_no_separator)
  qed
  with nonempty have split: "split_on CHR ''/'' (board_to_fen board) = ?ranks"
    unfolding board_to_fen_def by (rule split_join_ranks)
  have "\<forall>r \<in> set ?ranks. rank_width r = Some 8"
  proof
    fix r assume "r \<in> set ?ranks"
    then obtain rk where rk: "rk \<in> set (board_ranks board)" and r: "r = build_rank 0 rk" by auto
    from sym full rk have "length rk = 8" and "list_all board_symbol rk" by blast+
    then have "0 + length rk \<le> 9" and "list_all board_symbol rk" and "length rk = 8" by simp_all
    with rank_width_build_rank [of 0 rk] show "rank_width r = Some 8" unfolding r by simp
  qed
  then have "list_all (\<lambda>r. rank_width r = Some 8) ?ranks" by (simp add: list_all_iff)
  with split show ?thesis by (simp add: well_formed_def Let_def board_ranks_def)
qed




end
